theory Spec2Isabelle
  imports Main "HOL-Library.AList" "HOL-Library.Sublist" "HOL-Library.Code_Target_Nat"
begin

section \<open>JavaScript values and string helpers\<close>

text \<open>
  The addon reads JSON delivered by two remote services. The fields whose JavaScript type
  the code inspects (\<open>typeof\<close>, truthiness, \<open>===\<close>) are kept as tagged values; numbers
  are the integer-valued JSON numbers, strings are byte strings (UTF-8).
\<close>

datatype jsval = JUndefined | JNull | JBool bool | JNum int | JStr string | JObject

text \<open>ToBoolean, as used by \<open>!v\<close>, \<open>a || b\<close> and \<open>if (v)\<close>.\<close>

fun truthy :: "jsval \<Rightarrow> bool" where
  "truthy JUndefined = False"
| "truthy JNull = False"
| "truthy (JBool b) = b"
| "truthy (JNum n) = (n \<noteq> 0)"
| "truthy (JStr s) = (s \<noteq> [])"
| "truthy JObject = True"

text \<open>Truthiness of an optional string and of an optional number (absent, empty and 0 are falsy).\<close>

fun truthy_str :: "string option \<Rightarrow> bool" where
  "truthy_str None = False"
| "truthy_str (Some s) = (s \<noteq> [])"

fun truthy_num :: "nat option \<Rightarrow> bool" where
  "truthy_num None = False"
| "truthy_num (Some n) = (n \<noteq> 0)"

text \<open>\<open>String(n)\<close> for a non-negative integer: its decimal digits.\<close>

definition digit_char :: "nat \<Rightarrow> char" where
  "digit_char d = ''0123456789'' ! d"

function String_js :: "nat \<Rightarrow> string" where
  "String_js n = (if n < 10 then [digit_char n] else String_js (n div 10) @ [digit_char (n mod 10)])"
  by pat_completeness auto
termination
  by (relation "measure (\<lambda>n. n)") auto

declare String_js.simps [simp del]

text \<open>
  \<open>toUpperCase\<close> and \<open>toLowerCase\<close> on UTF-8 bytes. The ASCII letters are mapped; a
  character outside ASCII keeps its bytes, except the Kelvin sign (U+212A), the one such
  character whose lower case is an ASCII letter. The code only looks for ASCII file
  extensions at the end of a lowered name and for the ASCII tags of \<open>qualities\<close> inside an
  upper-cased one, and no character outside ASCII has an upper case that completes one of
  these tags.
\<close>

definition lower_letters :: string where
  "lower_letters = ''abcdefghijklmnopqrstuvwxyz''"

definition upper_letters :: string where
  "upper_letters = ''ABCDEFGHIJKLMNOPQRSTUVWXYZ''"

definition upper_char :: "char \<Rightarrow> char" where
  "upper_char c = (case map_of (zip lower_letters upper_letters) c of None \<Rightarrow> c | Some u \<Rightarrow> u)"

definition lower_char :: "char \<Rightarrow> char" where
  "lower_char c = (case map_of (zip upper_letters lower_letters) c of None \<Rightarrow> c | Some l \<Rightarrow> l)"

definition toUpperCase :: "string \<Rightarrow> string" where
  "toUpperCase s = map upper_char s"

definition kelvin_sign :: string where
  "kelvin_sign = [CHR 0xE2, CHR 0x84, CHR 0xAA]"

fun toLowerCase :: "string \<Rightarrow> string" where
  "toLowerCase (c1 # c2 # c3 # cs) =
     (if [c1, c2, c3] = kelvin_sign then CHR ''k'' # toLowerCase cs
      else lower_char c1 # toLowerCase (c2 # c3 # cs))"
| "toLowerCase (c # cs) = lower_char c # toLowerCase cs"
| "toLowerCase [] = []"

text \<open>\<open>s.includes(q)\<close>, \<open>s.startsWith(q)\<close> and \<open>s.endsWith(q)\<close>.\<close>

fun includes_js :: "string \<Rightarrow> string \<Rightarrow> bool" where
  "includes_js [] q = (q = [])"
| "includes_js (c # cs) q = (prefix q (c # cs) \<or> includes_js cs q)"

definition startsWith :: "string \<Rightarrow> string \<Rightarrow> bool" where
  "startsWith s q = prefix q s"

definition endsWith :: "string \<Rightarrow> string \<Rightarrow> bool" where
  "endsWith s q = suffix q s"

section \<open>The name parser\<close>

text \<open>
  What a JavaScript call can raise. The addon only ever reads \<open>error.message\<close> for its log,
  so the tag records where the failure came from.
\<close>

datatype exn =
    ConfigMissing
  | ApiError nat
  | FetchFailed
  | JsonError
  | LibraryError

text \<open>
  The object returned by \<open>ptt.parse\<close> of the library parse-torrent-title; a field the
  library did not set is \<open>None\<close>.
\<close>

record ptt_result =
  ptt_title :: "string option"
  ptt_year :: "nat option"
  ptt_season :: "nat option"
  ptt_episode :: "nat option"
  ptt_resolution :: "string option"
  ptt_quality :: "string option"

text \<open>The descriptor built by \<open>parseTorrentName\<close>; \<open>null\<close> is \<open>None\<close>.\<close>

record descriptor =
  title :: string
  year :: "nat option"
  season :: "nat option"
  episode :: "nat option"
  quality :: "string option"
  type :: string

text \<open>\<open>a || b\<close> on optional fields, with \<open>null\<close> as the last alternative.\<close>

definition or_null_num :: "nat option \<Rightarrow> nat option" where
  "or_null_num a = (if truthy_num a then a else None)"

definition or_str :: "string option \<Rightarrow> string option \<Rightarrow> string option" where
  "or_str a b = (if truthy_str a then a else b)"

definition or_null_str :: "string option \<Rightarrow> string option" where
  "or_null_str a = (if truthy_str a then a else None)"

text \<open>
  \<open>parseTorrentName(name)\<close>. The library call is a parameter \<open>ptt\<close>; it may raise, and
  then so does \<open>parseTorrentName\<close>, which has no handler of its own.
\<close>

definition parseTorrentName :: "(string \<Rightarrow> exn + ptt_result) \<Rightarrow> string \<Rightarrow> exn + descriptor" where
  "parseTorrentName ptt name =
     (case ptt name of
        Inl e \<Rightarrow> Inl e
      | Inr parsed \<Rightarrow>
          Inr \<lparr> title = (case ptt_title parsed of
                           None \<Rightarrow> name
                         | Some t \<Rightarrow> if t \<noteq> [] then t else name),
                year = or_null_num (ptt_year parsed),
                season = or_null_num (ptt_season parsed),
                episode = or_null_num (ptt_episode parsed),
                quality = or_null_str (or_str (ptt_resolution parsed) (ptt_quality parsed)),
                type = (if truthy_num (ptt_season parsed) \<or> truthy_num (ptt_episode parsed)
                        then ''series'' else ''movie'') \<rparr>)"

section \<open>Inventory entries, metadata records and the remote services\<close>

record tfile =
  file_id :: nat
  file_name :: string

text \<open>
  An entry of the Torbox inventory listing. \<open>imdbId\<close> and \<open>parsed\<close> are the fields
  \<open>_imdbId\<close> and \<open>_parsed\<close> that the addon writes on the object; \<open>None\<close> is a field
  that is not there.
\<close>

record torrent =
  torrent_id :: nat
  torrent_name :: string
  updated_at :: jsval
  created_at :: jsval
  files :: "tfile list option"
  imdbId :: "string option"
  parsed :: "descriptor option"

text \<open>A record of the Cinemeta catalogue, with the fields the matching code reads.\<close>

record cmeta =
  meta_id :: string
  meta_name :: string
  meta_year :: jsval
  meta_releaseInfo :: "string option"

text \<open>
  A reply of \<open>fetch\<close>: the promise is rejected (no connection, timeout), or a response
  arrives with a status and a body; \<open>None\<close> is a body that \<open>response.json()\<close> cannot read.
  The readable bodies are the shapes the two services send.
\<close>

datatype payload = Torrents "torrent list" | Metas "cmeta list" | Link string | NoData

datatype response = Rejected | Response nat "payload option"

definition response_ok :: "nat \<Rightarrow> bool" where
  "response_ok status = (200 \<le> status \<and> status \<le> 299)"

text \<open>
  The surroundings of the process: the environment variable, the title-parsing library,
  the network and the engine's \<open>Date.parse\<close> and \<open>Array.prototype.sort\<close>. The network
  answers the \<open>n\<close>-th request of the process as it likes, so the same address may be
  answered differently each time. The sort is given its comparator, whose result \<open>None\<close>
  is \<open>NaN\<close>; the order it returns for a comparator that is not consistent (as with
  \<open>NaN\<close>) is the engine's own choice, so nothing is assumed about it.
\<close>

record env =
  TORBOX_API_KEY :: "string option"
  ptt_parse :: "string \<Rightarrow> exn + ptt_result"
  fetch :: "nat \<Rightarrow> string \<Rightarrow> response"
  Date_parse :: "string \<Rightarrow> int option"
  array_sort :: "(torrent \<Rightarrow> torrent \<Rightarrow> int option) \<Rightarrow> torrent list \<Rightarrow> torrent list"

text \<open>
  The three process-wide \<open>Map\<close>s, in insertion order (setting a key that is there keeps
  its place), and the addresses requested so far.
\<close>

record state =
  torrentsCache :: "(string \<times> torrent) list"
  cinemetaCache :: "(string \<times> cmeta) list"
  searchCache :: "(string \<times> cmeta option) list"
  requests :: "string list"

definition TORBOX_API_URL :: string where
  "TORBOX_API_URL = ''https://api.torbox.app/v1/api''"

definition CINEMETA_URL :: string where
  "CINEMETA_URL = ''https://v3-cinemeta.strem.io''"

text \<open>Issuing a request: the address is appended to the log and the network's reply is read.\<close>

definition do_fetch :: "env \<Rightarrow> string \<Rightarrow> state \<Rightarrow> response \<times> state" where
  "do_fetch e url s = (fetch e (length (requests s)) url, s\<lparr>requests := requests s @ [url]\<rparr>)"

section \<open>The inventory cache\<close>

definition mylist_url :: string where
  "mylist_url = TORBOX_API_URL @ ''/torrents/mylist?bypass_cache=true''"

text \<open>\<open>torrents.forEach(t => torrentsCache.set(String(t.id), t))\<close>\<close>

definition cache_all :: "torrent list \<Rightarrow> (string \<times> torrent) list \<Rightarrow> (string \<times> torrent) list" where
  "cache_all torrents c = foldl (\<lambda>c t. AList.update (String_js (torrent_id t)) t c) c torrents"

definition getTorboxTorrents :: "env \<Rightarrow> state \<Rightarrow> (exn + torrent list) \<times> state" where
  "getTorboxTorrents e s =
     (if \<not> truthy_str (TORBOX_API_KEY e) then (Inl ConfigMissing, s)
      else
        (case do_fetch e mylist_url s of
           (Rejected, s1) \<Rightarrow> (Inl FetchFailed, s1)
         | (Response status body, s1) \<Rightarrow>
             if \<not> response_ok status then (Inl (ApiError status), s1)
             else
               (case body of
                  None \<Rightarrow> (Inl JsonError, s1)
                | Some data \<Rightarrow>
                    let torrents = (case data of Torrents ts \<Rightarrow> ts | _ \<Rightarrow> [])
                    in (Inr torrents,
                        s1\<lparr>torrentsCache := cache_all torrents (torrentsCache s1)\<rparr>))))"

section \<open>The metadata resolver\<close>

text \<open>
  The class \<open>\w\<close> of a regular expression and the ASCII white space. In \<open>cleanTitle\<close>
  a byte of a character outside ASCII is replaced by a space, and the spaces are then
  merged; JavaScript keeps a white-space character outside ASCII in the first step and
  turns it into a space in the second, with the same result.
\<close>

definition is_word :: "char \<Rightarrow> bool" where
  "is_word c = (c \<in> set (upper_letters @ lower_letters @ ''0123456789_''))"

definition is_space :: "char \<Rightarrow> bool" where
  "is_space c = (c \<in> set [CHR 0x09, CHR 0x0A, CHR 0x0B, CHR 0x0C, CHR 0x0D, CHR '' ''])"

text \<open>\<open>.replace(/\s+/g, ' ')\<close>: the flag says that the previous character was whitespace.\<close>

fun collapse_ws :: "bool \<Rightarrow> string \<Rightarrow> string" where
  "collapse_ws b [] = []"
| "collapse_ws b (c # cs) =
     (if is_space c then (if b then collapse_ws True cs else CHR '' '' # collapse_ws True cs)
      else c # collapse_ws False cs)"

text \<open>\<open>.trim()\<close> on a string of word characters and spaces.\<close>

definition trim_spaces :: "string \<Rightarrow> string" where
  "trim_spaces s = rev (dropWhile is_space (rev (dropWhile is_space s)))"

text \<open>\<open>title.replace(/[^\w\s]/g, ' ').replace(/\s+/g, ' ').trim()\<close>\<close>

definition cleanTitle :: "string \<Rightarrow> string" where
  "cleanTitle t = trim_spaces (collapse_ws False (map (\<lambda>c. if is_word c \<or> is_space c then c else CHR '' '') t))"

text \<open>\<open>encodeURIComponent\<close>: every byte outside the unreserved set becomes \<open>%XX\<close>.\<close>

definition hex_digit :: "nat \<Rightarrow> char" where
  "hex_digit d = ''0123456789ABCDEF'' ! d"

definition uri_unreserved :: "char \<Rightarrow> bool" where
  "uri_unreserved c = (is_word c \<or> c \<in> set ''-.!~*'()'')"

definition encodeURIComponent :: "string \<Rightarrow> string" where
  "encodeURIComponent s =
     concat (map (\<lambda>c. if uri_unreserved c then [c]
                       else [CHR ''%'', hex_digit ((of_char c :: nat) div 16),
                             hex_digit ((of_char c :: nat) mod 16)]) s)"

text \<open>
  \<open>parseInt(s)\<close> without a radix: leading white space and line terminators (the ASCII
  ones and, in UTF-8, U+00A0, U+1680, U+2000 to U+200A, U+2028, U+2029, U+202F, U+205F,
  U+3000 and U+FEFF), a sign, then decimal digits, or hexadecimal digits after \<open>0x\<close>;
  \<open>None\<close> is \<open>NaN\<close>.
\<close>

definition white_space2 :: "string list" where
  "white_space2 = [[CHR 0xC2, CHR 0xA0]]"

definition white_space3 :: "string list" where
  "white_space3 =
     [[CHR 0xE1, CHR 0x9A, CHR 0x80],
      [CHR 0xE2, CHR 0x80, CHR 0x80], [CHR 0xE2, CHR 0x80, CHR 0x81],
      [CHR 0xE2, CHR 0x80, CHR 0x82], [CHR 0xE2, CHR 0x80, CHR 0x83],
      [CHR 0xE2, CHR 0x80, CHR 0x84], [CHR 0xE2, CHR 0x80, CHR 0x85],
      [CHR 0xE2, CHR 0x80, CHR 0x86], [CHR 0xE2, CHR 0x80, CHR 0x87],
      [CHR 0xE2, CHR 0x80, CHR 0x88], [CHR 0xE2, CHR 0x80, CHR 0x89],
      [CHR 0xE2, CHR 0x80, CHR 0x8A], [CHR 0xE2, CHR 0x80, CHR 0xA8],
      [CHR 0xE2, CHR 0x80, CHR 0xA9], [CHR 0xE2, CHR 0x80, CHR 0xAF],
      [CHR 0xE2, CHR 0x81, CHR 0x9F], [CHR 0xE3, CHR 0x80, CHR 0x80],
      [CHR 0xEF, CHR 0xBB, CHR 0xBF]]"

fun skip_white :: "string \<Rightarrow> string" where
  "skip_white (c1 # c2 # c3 # cs) =
     (if is_space c1 then skip_white (c2 # c3 # cs)
      else if [c1, c2] \<in> set white_space2 then skip_white (c3 # cs)
      else if [c1, c2, c3] \<in> set white_space3 then skip_white cs
      else c1 # c2 # c3 # cs)"
| "skip_white [c1, c2] =
     (if is_space c1 then skip_white [c2]
      else if [c1, c2] \<in> set white_space2 then []
      else [c1, c2])"
| "skip_white [c1] = (if is_space c1 then [] else [c1])"
| "skip_white [] = []"

definition digit_val :: "char \<Rightarrow> nat option" where
  "digit_val c = map_of (zip ''0123456789abcdef'' [0..<16]) (lower_char c)"

definition in_radix :: "nat \<Rightarrow> char \<Rightarrow> bool" where
  "in_radix r c = (case digit_val c of None \<Rightarrow> False | Some d \<Rightarrow> d < r)"

definition digits_val :: "nat \<Rightarrow> string \<Rightarrow> nat" where
  "digits_val r ds = foldl (\<lambda>acc c. acc * r + (case digit_val c of None \<Rightarrow> 0 | Some d \<Rightarrow> d)) 0 ds"

definition parse_digits :: "nat \<Rightarrow> string \<Rightarrow> nat option" where
  "parse_digits r s = (let ds = takeWhile (in_radix r) s in if ds = [] then None else Some (digits_val r ds))"

definition parse_unsigned :: "string \<Rightarrow> nat option" where
  "parse_unsigned s =
     (if prefix ''0x'' s \<or> prefix ''0X'' s then parse_digits 16 (drop 2 s) else parse_digits 10 s)"

definition parseInt :: "string \<Rightarrow> int option" where
  "parseInt str =
     (let s = skip_white str in
      case s of
        [] \<Rightarrow> None
      | c # cs \<Rightarrow>
          if c = CHR ''-'' then map_option (\<lambda>n. - int n) (parse_unsigned cs)
          else if c = CHR ''+'' then map_option int (parse_unsigned cs)
          else map_option int (parse_unsigned s))"

text \<open>
  The predicate of \<open>data.metas.find\<close>:
  \<open>metaYear = m.year || (m.releaseInfo && parseInt(m.releaseInfo)); metaYear === year\<close>,
  for a number \<open>year\<close>.
\<close>

definition year_matches :: "nat \<Rightarrow> cmeta \<Rightarrow> bool" where
  "year_matches y m =
     (if truthy (meta_year m) then meta_year m = JNum (int y)
      else (case meta_releaseInfo m of
              None \<Rightarrow> False
            | Some r \<Rightarrow> r \<noteq> [] \<and> parseInt r = Some (int y)))"

definition cache_key :: "string \<Rightarrow> string \<Rightarrow> nat option \<Rightarrow> string" where
  "cache_key ty t y =
     ty @ '':'' @ t @ '':'' @ (case y of None \<Rightarrow> [] | Some n \<Rightarrow> if n \<noteq> 0 then String_js n else [])"

definition search_url :: "string \<Rightarrow> string \<Rightarrow> string" where
  "search_url ty t =
     CINEMETA_URL @ ''/catalog/'' @ ty @ ''/top/search='' @ encodeURIComponent (cleanTitle t) @ ''.json''"

text \<open>
  \<open>searchCinemeta(title, type, year)\<close>. Everything after the cache lookup is inside the
  function's \<open>try\<close>, whose handler returns \<open>null\<close>; so the function raises nothing.
\<close>

definition searchCinemeta :: "env \<Rightarrow> string \<Rightarrow> string \<Rightarrow> nat option \<Rightarrow> state \<Rightarrow> cmeta option \<times> state" where
  "searchCinemeta e t ty y s =
     (let cacheKey = cache_key ty t y in
      case map_of (searchCache s) cacheKey of
        Some cached \<Rightarrow> (cached, s)
      | None \<Rightarrow>
          (case do_fetch e (search_url ty t) s of
             (Rejected, s1) \<Rightarrow> (None, s1)
           | (Response status body, s1) \<Rightarrow>
               if \<not> response_ok status then (None, s1)
               else
                 (case body of
                    None \<Rightarrow> (None, s1)
                  | Some data \<Rightarrow>
                      (case (case data of Metas ms \<Rightarrow> ms | _ \<Rightarrow> []) of
                         [] \<Rightarrow> (None, s1\<lparr>searchCache := AList.update cacheKey None (searchCache s1)\<rparr>)
                       | m0 # ms \<Rightarrow>
                           let bestMatch =
                                 (case y of
                                    None \<Rightarrow> m0
                                  | Some n \<Rightarrow>
                                      if n = 0 then m0
                                      else (case find (year_matches n) (m0 # ms) of
                                              None \<Rightarrow> m0
                                            | Some yearMatch \<Rightarrow> yearMatch))
                           in (Some bestMatch,
                               s1\<lparr>searchCache := AList.update cacheKey (Some bestMatch) (searchCache s1),
                                  cinemetaCache := AList.update (meta_id bestMatch) bestMatch (cinemetaCache s1)\<rparr>)))))"

section \<open>Dates and the recency order\<close>

text \<open>
  A \<open>Date\<close> object is its time value in milliseconds; \<open>None\<close> is the time value \<open>NaN\<close>
  of an Invalid Date. \<open>new Date(t)\<close> clips a number outside \<open>\<plusminus>8.64e15\<close> to \<open>NaN\<close>.
\<close>

type_synonym date = "int option"

definition new_Date :: "int \<Rightarrow> date" where
  "new_Date t = (if \<bar>t\<bar> \<le> 8640000000000000 then Some t else None)"

text \<open>\<open>parseDate(dateValue)\<close>; the outer \<open>None\<close> is \<open>null\<close>.\<close>

definition parseDate :: "env \<Rightarrow> jsval \<Rightarrow> date option" where
  "parseDate e dateValue =
     (if \<not> truthy dateValue then None
      else
        (case dateValue of
           JNum n \<Rightarrow> if n > 1000000000000 then Some (new_Date n) else Some (new_Date (n * 1000))
         | JStr str \<Rightarrow> Some (Date_parse e str)
         | _ \<Rightarrow> None))"

text \<open>
  \<open>parseDate(a.updated_at) || parseDate(a.created_at) || new Date(0)\<close>: a \<open>Date\<close> object
  is truthy whatever its time value, so only \<open>null\<close> moves on to the next alternative.
\<close>

definition sort_date :: "env \<Rightarrow> torrent \<Rightarrow> date" where
  "sort_date e a =
     (case parseDate e (updated_at a) of
        Some d \<Rightarrow> d
      | None \<Rightarrow> (case parseDate e (created_at a) of
                   Some d \<Rightarrow> d
                 | None \<Rightarrow> new_Date 0))"

text \<open>The comparator \<open>dateB.getTime() - dateA.getTime()\<close>; \<open>None\<close> is \<open>NaN\<close>.\<close>

definition compare_dates :: "env \<Rightarrow> torrent \<Rightarrow> torrent \<Rightarrow> int option" where
  "compare_dates e a b =
     (case (sort_date e b, sort_date e a) of
        (Some tb, Some ta) \<Rightarrow> Some (tb - ta)
      | _ \<Rightarrow> None)"

text \<open>
  A stable sort by insertion that reads \<open>NaN\<close> as \<open>0\<close>: an element moves behind
  another one only when the comparator is positive. For a consistent comparator this is
  the order every \<open>Array.prototype.sort\<close> returns; it is the sort of the sample
  environment below.
\<close>

fun insert_by :: "('a \<Rightarrow> 'a \<Rightarrow> int option) \<Rightarrow> 'a \<Rightarrow> 'a list \<Rightarrow> 'a list" where
  "insert_by cmp x [] = [x]"
| "insert_by cmp x (y # ys) =
     (if (case cmp x y of None \<Rightarrow> False | Some c \<Rightarrow> c > 0) then y # insert_by cmp x ys
      else x # y # ys)"

definition stable_sort :: "('a \<Rightarrow> 'a \<Rightarrow> int option) \<Rightarrow> 'a list \<Rightarrow> 'a list" where
  "stable_sort cmp xs = foldr (insert_by cmp) xs []"

section \<open>The catalog assembler\<close>

definition qualities :: "string list" where
  "qualities = [''2160p'', ''4K'', ''UHD'', ''1080p'', ''720p'', ''480p'', ''HDR'', ''DV'', ''REMUX'']"

definition extractQuality :: "string \<Rightarrow> string" where
  "extractQuality name =
     (case find (\<lambda>q. includes_js (toUpperCase name) (toUpperCase q)) qualities of
        None \<Rightarrow> []
      | Some q \<Rightarrow> q)"

text \<open>
  An entry pushed on \<open>metas\<close>, without the fields that are only displayed (poster,
  background, description, release text, rating).
\<close>

record catalog_meta =
  cat_id :: string
  cat_type :: string
  cat_name :: string
  torboxId :: nat
  cat_quality :: string
  torrentName :: string

definition quality_of :: "descriptor \<Rightarrow> string \<Rightarrow> string" where
  "quality_of p name = (case quality p of
                          None \<Rightarrow> extractQuality name
                        | Some q \<Rightarrow> if q \<noteq> [] then q else extractQuality name)"

text \<open>
  The body of the \<open>for\<close> loop of \<open>handleMediaCatalog\<close>, after the test of the cap, for
  one entry, with the local \<open>metas\<close> and \<open>seenImdb\<close>. The body has no \<open>try\<close>: an exception
  raised in it leaves the loop. \<open>continue\<close> hands the two locals back unchanged.
\<close>

definition catalog_step ::
  "env \<Rightarrow> string \<Rightarrow> torrent \<Rightarrow> catalog_meta list \<Rightarrow> string set \<Rightarrow> state
   \<Rightarrow> (exn + catalog_meta list \<times> string set) \<times> state" where
  "catalog_step e catalogType torrent metas seenImdb s =
     (let name = (if torrent_name torrent \<noteq> [] then torrent_name torrent else ''Sans nom'') in
      case parseTorrentName (ptt_parse e) name of
        Inl ex \<Rightarrow> (Inl ex, s)
      | Inr p \<Rightarrow>
          if type p \<noteq> catalogType then (Inr (metas, seenImdb), s)
          else
            (case searchCinemeta e (title p) (type p) (year p) s of
               (Some cinemetaResult, s1) \<Rightarrow>
                 if meta_id cinemetaResult \<notin> seenImdb then
                   (Inr (metas @ [\<lparr>cat_id = meta_id cinemetaResult, cat_type = catalogType,
                                    cat_name = meta_name cinemetaResult,
                                    torboxId = torrent_id torrent,
                                    cat_quality = quality_of p name, torrentName = name\<rparr>],
                         insert (meta_id cinemetaResult) seenImdb),
                    if \<not> truthy_str (imdbId torrent)
                    then s1\<lparr>torrentsCache :=
                              AList.update (String_js (torrent_id torrent))
                                (torrent\<lparr>imdbId := Some (meta_id cinemetaResult), parsed := Some p\<rparr>)
                                (torrentsCache s1)\<rparr>
                    else s1)
                 else (Inr (metas, seenImdb), s1)
             | (None, s1) \<Rightarrow>
                 let fallbackId = ''tb:'' @ String_js (torrent_id torrent) in
                 if fallbackId \<notin> seenImdb then
                   (Inr (metas @ [\<lparr>cat_id = fallbackId, cat_type = catalogType,
                                    cat_name = title p, torboxId = torrent_id torrent,
                                    cat_quality = quality_of p name, torrentName = name\<rparr>],
                         insert fallbackId seenImdb),
                    s1)
                 else (Inr (metas, seenImdb), s1)))"

text \<open>The loop over the sorted entries: \<open>if (metas.length >= 20) break\<close>, then the body.\<close>

fun catalog_loop ::
  "env \<Rightarrow> string \<Rightarrow> torrent list \<Rightarrow> catalog_meta list \<Rightarrow> string set \<Rightarrow> state
   \<Rightarrow> (exn + catalog_meta list \<times> string set) \<times> state" where
  "catalog_loop e catalogType [] metas seenImdb s = (Inr (metas, seenImdb), s)"
| "catalog_loop e catalogType (torrent # rest) metas seenImdb s =
     (if length metas \<ge> 20 then (Inr (metas, seenImdb), s)
      else
        (case catalog_step e catalogType torrent metas seenImdb s of
           (Inl ex, s1) \<Rightarrow> (Inl ex, s1)
         | (Inr (metas1, seenImdb1), s1) \<Rightarrow> catalog_loop e catalogType rest metas1 seenImdb1 s1))"

text \<open>
  \<open>handleMediaCatalog(catalogType)\<close>: the one \<open>try\<close> around the whole body turns any
  exception into the empty listing.
\<close>

definition handleMediaCatalog :: "env \<Rightarrow> string \<Rightarrow> state \<Rightarrow> catalog_meta list \<times> state" where
  "handleMediaCatalog e catalogType s =
     (case getTorboxTorrents e s of
        (Inl ex, s1) \<Rightarrow> ([], s1)
      | (Inr torrents, s1) \<Rightarrow>
          (case catalog_loop e catalogType (array_sort e (compare_dates e) torrents) [] {} s1 of
             (Inl ex, s2) \<Rightarrow> ([], s2)
           | (Inr (metas, seenImdb), s2) \<Rightarrow> (metas, s2)))"

section \<open>The stream resolver\<close>

text \<open>
  The address built by \<open>getTorboxStreamLink(torrentId, fileId)\<close>: the file parameter is
  appended under \<open>if (fileId)\<close>.
\<close>

definition requestdl_url :: "string \<Rightarrow> nat \<Rightarrow> nat option \<Rightarrow> string" where
  "requestdl_url key torrentId fileId =
     TORBOX_API_URL @ ''/torrents/requestdl?token='' @ key @ ''&torrent_id='' @ String_js torrentId
       @ (case fileId of
            None \<Rightarrow> []
          | Some f \<Rightarrow> if f \<noteq> 0 then ''&file_id='' @ String_js f else [])"

text \<open>The addresses of the link-issuing endpoint.\<close>

definition is_requestdl :: "string \<Rightarrow> bool" where
  "is_requestdl url = prefix (TORBOX_API_URL @ ''/torrents/requestdl?'') url"

text \<open>\<open>getTorboxStreamLink\<close> returns \<open>data.data\<close>; \<open>None\<close> is a body without a link.\<close>

definition getTorboxStreamLink ::
  "env \<Rightarrow> nat \<Rightarrow> nat option \<Rightarrow> state \<Rightarrow> (exn + string option) \<times> state" where
  "getTorboxStreamLink e torrentId fileId s =
     (case TORBOX_API_KEY e of
        None \<Rightarrow> (Inl ConfigMissing, s)
      | Some key \<Rightarrow>
          if key = [] then (Inl ConfigMissing, s)
          else
            (case do_fetch e (requestdl_url key torrentId fileId) s of
               (Rejected, s1) \<Rightarrow> (Inl FetchFailed, s1)
             | (Response status body, s1) \<Rightarrow>
                 if \<not> response_ok status then (Inl (ApiError status), s1)
                 else
                   (case body of
                      None \<Rightarrow> (Inl JsonError, s1)
                    | Some data \<Rightarrow> (Inr (case data of Link u \<Rightarrow> Some u | _ \<Rightarrow> None), s1))))"

record stream =
  stream_name :: string
  stream_title :: string
  stream_url :: "string option"

definition videoExtensions :: "string list" where
  "videoExtensions = [''.mkv'', ''.mp4'', ''.avi'', ''.mov'', ''.wmv'', ''.webm'']"

definition isVideo :: "tfile \<Rightarrow> bool" where
  "isVideo file = list_ex (\<lambda>ext. endsWith (toLowerCase (file_name file)) ext) videoExtensions"

text \<open>The label \<open>`${quality ? quality + ' \<bullet> ' : ''}${name}`\<close> (the bullet is U+2022).\<close>

definition stream_label :: "string \<Rightarrow> string" where
  "stream_label name =
     (let q = extractQuality name in
      (if q \<noteq> [] then q @ [CHR '' '', CHR 0xE2, CHR 0x80, CHR 0xA2, CHR '' ''] else []) @ name)"

definition torbox_stream :: "string \<Rightarrow> string option \<Rightarrow> stream" where
  "torbox_stream name url =
     \<lparr>stream_name = [CHR 0xE2, CHR 0x9A, CHR 0xA1] @ '' Torbox'',
      stream_title = stream_label name, stream_url = url\<rparr>"

text \<open>The loop over \<open>torrent.files\<close>: a link request that raises is logged and passed over.\<close>

fun files_loop :: "env \<Rightarrow> torrent \<Rightarrow> tfile list \<Rightarrow> stream list \<Rightarrow> state \<Rightarrow> stream list \<times> state" where
  "files_loop e t [] streams s = (streams, s)"
| "files_loop e t (file # rest) streams s =
     (if isVideo file then
        (case getTorboxStreamLink e (torrent_id t) (Some (file_id file)) s of
           (Inl err, s1) \<Rightarrow> files_loop e t rest streams s1
         | (Inr streamUrl, s1) \<Rightarrow>
             files_loop e t rest (streams @ [torbox_stream (file_name file) streamUrl]) s1)
      else files_loop e t rest streams s)"

definition generateStreamsForTorrent :: "env \<Rightarrow> torrent \<Rightarrow> state \<Rightarrow> stream list \<times> state" where
  "generateStreamsForTorrent e t s =
     (case files t of
        Some (f # fs) \<Rightarrow> files_loop e t (f # fs) [] s
      | _ \<Rightarrow>
          (case getTorboxStreamLink e (torrent_id t) None s of
             (Inl err, s1) \<Rightarrow> ([], s1)
           | (Inr streamUrl, s1) \<Rightarrow> ([torbox_stream (torrent_name t) streamUrl], s1)))"

text \<open>
  The second loop of the stream handler over the entries of \<open>torrentsCache\<close>: each name is
  parsed and searched again until a record with the requested id comes back; that entry is
  marked (\<open>t._imdbId = id\<close>, on the object the cache holds) and the loop ends.
\<close>

fun resolve_scan ::
  "env \<Rightarrow> string \<Rightarrow> (string \<times> torrent) list \<Rightarrow> state \<Rightarrow> (exn + torrent option) \<times> state" where
  "resolve_scan e i [] s = (Inr None, s)"
| "resolve_scan e i ((k, t) # rest) s =
     (case parseTorrentName (ptt_parse e) (torrent_name t) of
        Inl ex \<Rightarrow> (Inl ex, s)
      | Inr p \<Rightarrow>
          (case searchCinemeta e (title p) (type p) (year p) s of
             (Some cinemetaResult, s1) \<Rightarrow>
               if meta_id cinemetaResult = i then
                 (Inr (Some (t\<lparr>imdbId := Some i\<rparr>)),
                  s1\<lparr>torrentsCache := AList.update k (t\<lparr>imdbId := Some i\<rparr>) (torrentsCache s1)\<rparr>)
               else resolve_scan e i rest s1
           | (None, s1) \<Rightarrow> resolve_scan e i rest s1))"

text \<open>
  Locating the entry for an id: \<open>tb:\<close> ids by the cache key, \<open>tt\<close> ids by the mark after
  a refresh and then by the second loop. \<open>Inl\<close> is an exception on the way.
\<close>

definition find_torrent :: "env \<Rightarrow> string \<Rightarrow> state \<Rightarrow> (exn + torrent option) \<times> state" where
  "find_torrent e i s =
     (if startsWith i ''tb:'' then
        (let torrentId = drop 3 i in
         case map_of (torrentsCache s) torrentId of
           Some t \<Rightarrow> (Inr (Some t), s)
         | None \<Rightarrow>
             (case getTorboxTorrents e s of
                (Inl ex, s1) \<Rightarrow> (Inl ex, s1)
              | (Inr ts, s1) \<Rightarrow> (Inr (map_of (torrentsCache s1) torrentId), s1)))
      else if startsWith i ''tt'' then
        (case getTorboxTorrents e s of
           (Inl ex, s1) \<Rightarrow> (Inl ex, s1)
         | (Inr ts, s1) \<Rightarrow>
             (case find (\<lambda>(k, t). imdbId t = Some i) (torrentsCache s1) of
                Some (k, t) \<Rightarrow> (Inr (Some t), s1)
              | None \<Rightarrow> resolve_scan e i (torrentsCache s1) s1))
      else (Inr None, s))"

text \<open>The stream handler: the callback given to \<open>builder.defineStreamHandler\<close>.\<close>

definition streamHandler :: "env \<Rightarrow> string \<Rightarrow> string \<Rightarrow> state \<Rightarrow> stream list \<times> state" where
  "streamHandler e ty i s =
     (if ty \<notin> set [''movie'', ''series'', ''other''] then ([], s)
      else
        (case find_torrent e i s of
           (Inl ex, s1) \<Rightarrow> ([], s1)
         | (Inr None, s1) \<Rightarrow> ([], s1)
         | (Inr (Some t), s1) \<Rightarrow> generateStreamsForTorrent e t s1))"

section \<open>A sample environment\<close>

text \<open>
  Concrete surroundings on which the functions above are run: a parser that knows four
  release names (and hands any other name back as its title, so the empty name gets the
  empty title, as the library's title cleaner does), a catalogue that knows one film, an
  inventory service that lists the given entries and issues a link for every request, a
  \<open>Date.parse\<close> that reads one ISO string, and the stable sort.
\<close>

definition sample_ptt :: "string \<Rightarrow> exn + ptt_result" where
  "sample_ptt name =
     (if name = ''Movie.Name.2021.1080p.BluRay.mkv'' then
        Inr \<lparr>ptt_title = Some ''Movie Name'', ptt_year = Some 2021, ptt_season = None,
             ptt_episode = None, ptt_resolution = Some ''1080p'', ptt_quality = Some ''BluRay''\<rparr>
      else if name = ''Movie.Name.2021.2160p.WEB.mkv'' then
        Inr \<lparr>ptt_title = Some ''Movie Name'', ptt_year = Some 2021, ptt_season = None,
             ptt_episode = None, ptt_resolution = Some ''2160p'', ptt_quality = Some ''WEB''\<rparr>
      else if name = ''Show.Name.S02E05.720p.mkv'' then
        Inr \<lparr>ptt_title = Some ''Show Name'', ptt_year = None, ptt_season = Some 2,
             ptt_episode = Some 5, ptt_resolution = Some ''720p'', ptt_quality = None\<rparr>
      else if name = ''Show.Name.S00E00.720p.mkv'' then
        Inr \<lparr>ptt_title = Some ''Show Name'', ptt_year = None, ptt_season = Some 0,
             ptt_episode = Some 0, ptt_resolution = Some ''720p'', ptt_quality = None\<rparr>
      else
        Inr \<lparr>ptt_title = Some name, ptt_year = None, ptt_season = None,
             ptt_episode = None, ptt_resolution = None, ptt_quality = None\<rparr>)"

text \<open>The same parser, raising on one release name.\<close>

definition raising_ptt :: "string \<Rightarrow> exn + ptt_result" where
  "raising_ptt name = (if name = ''Broken.Release'' then Inl LibraryError else sample_ptt name)"

definition movie_meta :: cmeta where
  "movie_meta = \<lparr>meta_id = ''tt1234567'', meta_name = ''Movie Name'', meta_year = JUndefined,
                  meta_releaseInfo = Some ''2021''\<rparr>"

definition sample_fetch :: "torrent list \<Rightarrow> nat \<Rightarrow> string \<Rightarrow> response" where
  "sample_fetch inventory n url =
     (if url = mylist_url then Response 200 (Some (Torrents inventory))
      else if url = search_url ''movie'' ''Movie Name'' then Response 200 (Some (Metas [movie_meta]))
      else if prefix (TORBOX_API_URL @ ''/torrents/requestdl'') url then
        Response 200 (Some (Link ''https://cdn.example/file''))
      else Response 404 None)"

definition sample_Date_parse :: "string \<Rightarrow> int option" where
  "sample_Date_parse str = (if str = ''2024-01-01T00:00:00.000Z'' then Some 1704067200000 else None)"

definition sample_env :: "torrent list \<Rightarrow> env" where
  "sample_env inventory =
     \<lparr>TORBOX_API_KEY = Some ''key'', ptt_parse = sample_ptt, fetch = sample_fetch inventory,
      Date_parse = sample_Date_parse, array_sort = stable_sort\<rparr>"

text \<open>A catalogue that answers every request with status 500.\<close>

definition failing_env :: env where
  "failing_env =
     \<lparr>TORBOX_API_KEY = Some ''key'', ptt_parse = sample_ptt,
      fetch = (\<lambda>n url. Response 500 None), Date_parse = sample_Date_parse,
      array_sort = stable_sort\<rparr>"

definition empty_state :: state where
  "empty_state = \<lparr>torrentsCache = [], cinemetaCache = [], searchCache = [], requests = []\<rparr>"

definition entry :: "nat \<Rightarrow> string \<Rightarrow> jsval \<Rightarrow> jsval \<Rightarrow> torrent" where
  "entry i name upd cre =
     \<lparr>torrent_id = i, torrent_name = name, updated_at = upd, created_at = cre,
      files = None, imdbId = None, parsed = None\<rparr>"

text \<open>The sample surroundings with the raising parser.\<close>

definition raising_env :: "torrent list \<Rightarrow> env" where
  "raising_env inventory = (sample_env inventory)\<lparr>ptt_parse := raising_ptt\<rparr>"

text \<open>The surroundings of a process started without the environment variable.\<close>

definition keyless_env :: env where
  "keyless_env = (sample_env [])\<lparr>TORBOX_API_KEY := None\<rparr>"

text \<open>Two quality variants of one film, an entry the raising parser fails on, and twenty films.\<close>

definition variant_1080p :: torrent where
  "variant_1080p = entry 1 ''Movie.Name.2021.1080p.BluRay.mkv'' (JNum 1700000000) JUndefined"

definition variant_2160p :: torrent where
  "variant_2160p = entry 2 ''Movie.Name.2021.2160p.WEB.mkv'' (JNum 1700000500) JUndefined"

definition broken_entry :: torrent where
  "broken_entry = entry 99 ''Broken.Release'' (JNum 1600000000) JUndefined"

definition films :: "torrent list" where
  "films = map (\<lambda>i. entry i ''Film'' (JNum 1700000000) JNull) [1..<21]"

text \<open>A cache that holds two entries marked with the same catalogue id.\<close>

definition marked_state :: state where
  "marked_state =
     empty_state\<lparr>torrentsCache :=
       [(''7'', (entry 7 ''Movie.Name.2021.1080p.BluRay.mkv'' JNull JNull)\<lparr>imdbId := Some ''tt1234567''\<rparr>),
        (''8'', (entry 8 ''Movie.Name.2021.2160p.WEB.mkv'' JNull JNull)\<lparr>imdbId := Some ''tt1234567''\<rparr>)]\<rparr>"

section \<open>Evaluation helpers\<close>

lemma pair_of_fst: "fst x = a \<Longrightarrow> x = (a, snd x)"
  by (cases x) simp

lemma run_of_not_raised:
  "(case fst x of Inl ex \<Rightarrow> False | Inr v \<Rightarrow> P (fst v)) \<Longrightarrow> \<exists>a b c. x = (Inr (a, b), c) \<and> P a"
  by (cases x) (auto split: sum.splits)

section \<open>Properties of the name parser\<close>

text \<open>
  Claim C7, amended. Whenever the library call returns, \<open>parseTorrentName\<close> returns a
  descriptor: it adds no failure of its own. The title is the library's title, or the raw
  name when the library gave none or an empty one; so it is non-empty for every non-empty
  name. The season and the episode of the descriptor are the ones the library detected
  when they are not 0, and absent otherwise. The kind is \<open>series\<close> exactly when the
  library detected a season or an episode other than 0, which is exactly when the
  descriptor has a season or an episode, and \<open>movie\<close> otherwise.
\<close>

theorem C7_parse_descriptor:
  assumes "ptt name = Inr r"
  shows "\<exists>d. parseTorrentName ptt name = Inr d \<and>
           title d = (case ptt_title r of None \<Rightarrow> name | Some t \<Rightarrow> if t \<noteq> [] then t else name) \<and>
           (name \<noteq> [] \<longrightarrow> title d \<noteq> []) \<and>
           season d = (case ptt_season r of None \<Rightarrow> None | Some n \<Rightarrow> if n \<noteq> 0 then Some n else None) \<and>
           episode d = (case ptt_episode r of None \<Rightarrow> None | Some n \<Rightarrow> if n \<noteq> 0 then Some n else None) \<and>
           (type d = ''series'' \<longleftrightarrow>
              (\<exists>n. n \<noteq> 0 \<and> (ptt_season r = Some n \<or> ptt_episode r = Some n))) \<and>
           (type d = ''movie'' \<longleftrightarrow>
              \<not> (\<exists>n. n \<noteq> 0 \<and> (ptt_season r = Some n \<or> ptt_episode r = Some n))) \<and>
           (type d = ''series'' \<longleftrightarrow> season d \<noteq> None \<or> episode d \<noteq> None) \<and>
           (type d = ''movie'' \<longleftrightarrow> season d = None \<and> episode d = None)"
  using assms
  by (cases "ptt_season r"; cases "ptt_episode r")
     (auto simp add: parseTorrentName_def or_null_num_def split: option.splits)

text \<open>The theorem at a release name of a series episode.\<close>

theorem C7_parse_descriptor_witness:
  "sample_ptt ''Show.Name.S02E05.720p.mkv'' =
     Inr \<lparr>ptt_title = Some ''Show Name'', ptt_year = None, ptt_season = Some 2,
          ptt_episode = Some 5, ptt_resolution = Some ''720p'', ptt_quality = None\<rparr> \<and>
   (\<exists>d. parseTorrentName sample_ptt ''Show.Name.S02E05.720p.mkv'' = Inr d \<and>
        title d = ''Show Name'' \<and> type d = ''series'' \<and> season d = Some 2 \<and> episode d = Some 5)"
proof -
  define r where "r = \<lparr>ptt_title = Some ''Show Name'', ptt_year = None, ptt_season = Some 2,
          ptt_episode = Some 5, ptt_resolution = Some ''720p'', ptt_quality = None\<rparr>"
  have h: "sample_ptt ''Show.Name.S02E05.720p.mkv'' = Inr r"
    by (simp add: sample_ptt_def r_def)
  from C7_parse_descriptor [of sample_ptt "''Show.Name.S02E05.720p.mkv''", OF h] obtain d where
    d: "parseTorrentName sample_ptt ''Show.Name.S02E05.720p.mkv'' = Inr d"
      "title d = (case ptt_title r of None \<Rightarrow> ''Show.Name.S02E05.720p.mkv''
                  | Some t \<Rightarrow> if t \<noteq> [] then t else ''Show.Name.S02E05.720p.mkv'')"
      "season d = (case ptt_season r of None \<Rightarrow> None | Some n \<Rightarrow> if n \<noteq> 0 then Some n else None)"
      "episode d = (case ptt_episode r of None \<Rightarrow> None | Some n \<Rightarrow> if n \<noteq> 0 then Some n else None)"
      "type d = ''series'' \<longleftrightarrow> season d \<noteq> None \<or> episode d \<noteq> None"
    by blast
  from d(2-5) have "title d = ''Show Name''" "season d = Some 2" "episode d = Some 5"
    "type d = ''series''"
    by (simp_all add: r_def)
  with d(1) h show ?thesis unfolding r_def by blast
qed

text \<open>
  Claim C7 as stated asks for a non-empty title for every input string, and for the kind
  \<open>series\<close> whenever a season or an episode was detected. For the empty string the
  library's title is empty and the fallback, the raw name, is empty as well. And for a
  name in which the library detects season 0 and episode 0 the kind is \<open>movie\<close>.
\<close>

theorem C7_empty_name_counterexample:
  "parseTorrentName sample_ptt '''' =
     Inr \<lparr>title = '''', year = None, season = None, episode = None, quality = None,
          type = ''movie''\<rparr> \<and>
   sample_ptt ''Show.Name.S00E00.720p.mkv'' =
     Inr \<lparr>ptt_title = Some ''Show Name'', ptt_year = None, ptt_season = Some 0,
          ptt_episode = Some 0, ptt_resolution = Some ''720p'', ptt_quality = None\<rparr> \<and>
   parseTorrentName sample_ptt ''Show.Name.S00E00.720p.mkv'' =
     Inr \<lparr>title = ''Show Name'', year = None, season = None, episode = None,
          quality = Some ''720p'', type = ''movie''\<rparr>"
  by (simp add: parseTorrentName_def sample_ptt_def or_null_num_def or_null_str_def or_str_def)

section \<open>Properties of the metadata resolver\<close>

lemma searchCinemeta_cached:
  "map_of (searchCache s) (cache_key ty t y) = Some v \<Longrightarrow> searchCinemeta e t ty y s = (v, s)"
  by (simp add: searchCinemeta_def)

lemma searchCinemeta_rejected:
  "map_of (searchCache s) (cache_key ty t y) = None \<Longrightarrow>
   fetch e (length (requests s)) (search_url ty t) = Rejected \<Longrightarrow>
   searchCinemeta e t ty y s = (None, s\<lparr>requests := requests s @ [search_url ty t]\<rparr>)"
  by (simp add: searchCinemeta_def do_fetch_def)

lemma searchCinemeta_status:
  "map_of (searchCache s) (cache_key ty t y) = None \<Longrightarrow>
   fetch e (length (requests s)) (search_url ty t) = Response st b \<Longrightarrow> \<not> response_ok st \<Longrightarrow>
   searchCinemeta e t ty y s = (None, s\<lparr>requests := requests s @ [search_url ty t]\<rparr>)"
  by (simp add: searchCinemeta_def do_fetch_def)

lemma searchCinemeta_completed:
  "map_of (searchCache s) (cache_key ty t y) = None \<Longrightarrow>
   fetch e (length (requests s)) (search_url ty t) = Response st (Some d) \<Longrightarrow> response_ok st \<Longrightarrow>
   map_of (searchCache (snd (searchCinemeta e t ty y s))) (cache_key ty t y)
     = Some (fst (searchCinemeta e t ty y s))"
  by (simp add: searchCinemeta_def do_fetch_def AList.update_conv' Let_def split: list.splits)

lemma searchCinemeta_requests:
  "requests (snd (searchCinemeta e t ty y s)) = requests s \<or>
   requests (snd (searchCinemeta e t ty y s)) = requests s @ [search_url ty t]"
  by (simp add: searchCinemeta_def do_fetch_def Let_def
           split: option.splits response.splits list.splits prod.splits)

lemma searchCinemeta_keeps:
  "map_of (searchCache s) k = Some v \<Longrightarrow>
   map_of (searchCache (snd (searchCinemeta e t ty y s))) k = Some v"
  by (auto simp add: searchCinemeta_def do_fetch_def Let_def AList.update_conv'
           split: option.splits response.splits list.splits prod.splits)

lemma searchCinemeta_cache_changed:
  "searchCache (snd (searchCinemeta e t ty y s)) \<noteq> searchCache s \<Longrightarrow>
   \<exists>st d. fetch e (length (requests s)) (search_url ty t) = Response st (Some d) \<and> response_ok st"
  by (auto simp add: searchCinemeta_def do_fetch_def Let_def
           split: option.splits response.splits list.splits prod.splits if_splits)

text \<open>
  Claim C5, amended. Once the key of a (kind, title, year) triple is in the search cache,
  or the call receives a success status with a readable body (a found record or an empty
  list), the call issues at most one request, leaves its result in the cache under that
  key, and an identical call right after it returns the same result and changes nothing,
  so it issues no request. The same holds in every later state that still has the entry,
  and no search removes it.
\<close>

theorem C5_cached_after_completed_call:
  assumes "map_of (searchCache s) (cache_key ty t y) \<noteq> None \<or>
           (\<exists>st d. fetch e (length (requests s)) (search_url ty t) = Response st (Some d) \<and>
                    response_ok st)"
  shows "(\<exists>r s1. searchCinemeta e t ty y s = (r, s1) \<and>
            length (requests s1) \<le> length (requests s) + 1 \<and>
            map_of (searchCache s1) (cache_key ty t y) = Some r \<and>
            searchCinemeta e t ty y s1 = (r, s1) \<and>
            (\<forall>s2. map_of (searchCache s2) (cache_key ty t y) = Some r \<longrightarrow>
                  searchCinemeta e t ty y s2 = (r, s2) \<and>
                  (\<forall>t' ty' y'. map_of (searchCache (snd (searchCinemeta e t' ty' y' s2)))
                                 (cache_key ty t y) = Some r)))"
proof -
  obtain r s1 where run: "searchCinemeta e t ty y s = (r, s1)"
    by (cases "searchCinemeta e t ty y s")
  have len: "length (requests s1) \<le> length (requests s) + 1"
    using searchCinemeta_requests [of e t ty y s] run by auto
  have cached: "map_of (searchCache s1) (cache_key ty t y) = Some r"
  proof (cases "map_of (searchCache s) (cache_key ty t y)")
    case (Some v)
    with run searchCinemeta_cached [OF Some, of e] show ?thesis by simp
  next
    case None
    with assms obtain st d where
      "fetch e (length (requests s)) (search_url ty t) = Response st (Some d)" "response_ok st"
      by auto
    from searchCinemeta_completed [OF None this] run show ?thesis by simp
  qed
  have again: "searchCinemeta e t ty y s2 = (r, s2)"
    if "map_of (searchCache s2) (cache_key ty t y) = Some r" for s2
    using that by (rule searchCinemeta_cached)
  show ?thesis
    using run len cached again [OF cached] again searchCinemeta_keeps by blast
qed


text \<open>The theorem at the sample catalogue: the second call is answered from the cache.\<close>

theorem C5_cached_after_completed_call_witness:
  "fetch (sample_env []) (length (requests empty_state)) (search_url ''movie'' ''Movie Name'')
     = Response 200 (Some (Metas [movie_meta])) \<and> response_ok 200 \<and>
   searchCinemeta (sample_env []) ''Movie Name'' ''movie'' (Some 2021) empty_state
     = (Some movie_meta,
        empty_state\<lparr>requests := [search_url ''movie'' ''Movie Name''],
                     searchCache := [(''movie:Movie Name:2021'', Some movie_meta)],
                     cinemetaCache := [(''tt1234567'', movie_meta)]\<rparr>) \<and>
   searchCinemeta (sample_env []) ''Movie Name'' ''movie'' (Some 2021)
       (empty_state\<lparr>requests := [search_url ''movie'' ''Movie Name''],
                     searchCache := [(''movie:Movie Name:2021'', Some movie_meta)],
                     cinemetaCache := [(''tt1234567'', movie_meta)]\<rparr>)
     = (Some movie_meta,
        empty_state\<lparr>requests := [search_url ''movie'' ''Movie Name''],
                     searchCache := [(''movie:Movie Name:2021'', Some movie_meta)],
                     cinemetaCache := [(''tt1234567'', movie_meta)]\<rparr>)"
proof -
  have f: "fetch (sample_env []) (length (requests empty_state)) (search_url ''movie'' ''Movie Name'')
     = Response 200 (Some (Metas [movie_meta]))"
    by (simp add: sample_env_def sample_fetch_def mylist_url_def search_url_def
                  TORBOX_API_URL_def CINEMETA_URL_def)
  have ok: "response_ok 200" by (simp add: response_ok_def)
  have k: "cache_key ''movie'' ''Movie Name'' (Some 2021) = ''movie:Movie Name:2021''"
    by code_simp
  have run: "searchCinemeta (sample_env []) ''Movie Name'' ''movie'' (Some 2021) empty_state
     = (Some movie_meta,
        empty_state\<lparr>requests := [search_url ''movie'' ''Movie Name''],
                     searchCache := [(''movie:Movie Name:2021'', Some movie_meta)],
                     cinemetaCache := [(''tt1234567'', movie_meta)]\<rparr>)"
    by code_simp
  from f ok have "map_of (searchCache empty_state) (cache_key ''movie'' ''Movie Name'' (Some 2021)) \<noteq> None \<or>
           (\<exists>st d. fetch (sample_env []) (length (requests empty_state)) (search_url ''movie'' ''Movie Name'') = Response st (Some d) \<and>
                    response_ok st)" by blast
  from C5_cached_after_completed_call [OF this] run f ok show ?thesis by auto
qed


text \<open>
  Claim C5 as stated allows one external call at most for repeated identical calls. When
  the catalogue answers with status 500, two identical calls issue two requests.
\<close>

theorem C5_failed_calls_repeat_counterexample:
  "requests (snd (searchCinemeta failing_env ''Movie Name'' ''movie'' (Some 2021)
       (snd (searchCinemeta failing_env ''Movie Name'' ''movie'' (Some 2021) empty_state))))
   = [search_url ''movie'' ''Movie Name'', search_url ''movie'' ''Movie Name'']"
  by (simp add: searchCinemeta_def do_fetch_def failing_env_def empty_state_def response_ok_def)

text \<open>
  Claim C10. When the key is not cached and the request is rejected or answered with a
  non-success status, \<open>searchCinemeta\<close> returns \<open>null\<close> and changes nothing but the log
  of requests: nothing is stored in either cache. An identical call after it issues the
  request again. And whenever a call changes the search cache, that call received a
  success status with a readable body.
\<close>

theorem C10_failed_search_not_cached:
  assumes "map_of (searchCache s) (cache_key ty t y) = None"
    and "fetch e (length (requests s)) (search_url ty t) = Rejected \<or>
         (\<exists>st b. fetch e (length (requests s)) (search_url ty t) = Response st b \<and> \<not> response_ok st)"
  shows "searchCinemeta e t ty y s = (None, s\<lparr>requests := requests s @ [search_url ty t]\<rparr>) \<and>
         requests (snd (searchCinemeta e t ty y (s\<lparr>requests := requests s @ [search_url ty t]\<rparr>)))
           = requests s @ [search_url ty t, search_url ty t] \<and>
         (\<forall>e' t' ty' y' s'. searchCache (snd (searchCinemeta e' t' ty' y' s')) \<noteq> searchCache s' \<longrightarrow>
            (\<exists>st d. fetch e' (length (requests s')) (search_url ty' t') = Response st (Some d) \<and>
                     response_ok st))"
proof -
  have first: "searchCinemeta e t ty y s = (None, s\<lparr>requests := requests s @ [search_url ty t]\<rparr>)"
    using assms searchCinemeta_rejected searchCinemeta_status by blast
  have second: "requests (snd (searchCinemeta e t ty y (s\<lparr>requests := requests s @ [search_url ty t]\<rparr>)))
           = requests s @ [search_url ty t, search_url ty t]"
    using assms(1)
    by (simp add: searchCinemeta_def do_fetch_def Let_def
             split: option.splits response.splits list.splits prod.splits)
  show ?thesis using first second searchCinemeta_cache_changed by blast
qed


text \<open>The theorem at a catalogue that answers with status 500.\<close>

theorem C10_failed_search_not_cached_witness:
  "map_of (searchCache empty_state) (cache_key ''movie'' ''Movie Name'' (Some 2021)) = None \<and>
   fetch failing_env (length (requests empty_state)) (search_url ''movie'' ''Movie Name'')
     = Response 500 None \<and>
   searchCinemeta failing_env ''Movie Name'' ''movie'' (Some 2021) empty_state
     = (None, empty_state\<lparr>requests := [search_url ''movie'' ''Movie Name'']\<rparr>)"
proof -
  have a: "map_of (searchCache empty_state) (cache_key ''movie'' ''Movie Name'' (Some 2021)) = None"
    by (simp add: empty_state_def)
  have b: "fetch failing_env (length (requests empty_state)) (search_url ''movie'' ''Movie Name'')
     = Response 500 None"
    by (simp add: failing_env_def)
  have "\<not> response_ok 500" by (simp add: response_ok_def)
  with b have c: "fetch failing_env (length (requests empty_state)) (search_url ''movie'' ''Movie Name'') = Rejected \<or>
         (\<exists>st b. fetch failing_env (length (requests empty_state)) (search_url ''movie'' ''Movie Name'') = Response st b \<and> \<not> response_ok st)"
    by blast
  from C10_failed_search_not_cached [OF a c] a b show ?thesis
    by (simp add: empty_state_def)
qed

section \<open>Properties of the catalog assembler\<close>

text \<open>One iteration either raises, leaves the locals alone, or appends one entry.\<close>

lemma catalog_step_cases:
  assumes "catalog_step e ct t metas seen s = (Inr (m1, seen1), s1)"
  shows "(m1 = metas \<and> seen1 = seen) \<or>
         (\<exists>x. m1 = metas @ [x] \<and> seen1 = insert (cat_id x) seen \<and> cat_id x \<notin> seen \<and>
              cat_type x = ct \<and>
              (\<exists>p. parseTorrentName (ptt_parse e) (torrentName x) = Inr p \<and> type p = ct))"
  using assms
  by (auto simp add: catalog_step_def Let_def
           split: if_splits sum.splits prod.splits option.splits)

lemma catalog_step_raises:
  "parseTorrentName (ptt_parse e)
     (if torrent_name t \<noteq> [] then torrent_name t else ''Sans nom'') = Inl ex \<Longrightarrow>
   catalog_step e ct t metas seen s = (Inl ex, s)"
  by (simp add: catalog_step_def Let_def)

lemma catalog_step_found:
  "parseTorrentName (ptt_parse e)
     (if torrent_name t \<noteq> [] then torrent_name t else ''Sans nom'') = Inr p \<Longrightarrow>
   type p = ct \<Longrightarrow> searchCinemeta e (title p) (type p) (year p) s = (Some r, s2) \<Longrightarrow>
   \<exists>m1 seen1 s3. catalog_step e ct t metas seen s = (Inr (m1, seen1), s3) \<and> meta_id r \<in> seen1"
  by (simp add: catalog_step_def Let_def)

lemma catalog_step_not_found:
  "parseTorrentName (ptt_parse e)
     (if torrent_name t \<noteq> [] then torrent_name t else ''Sans nom'') = Inr p \<Longrightarrow>
   type p = ct \<Longrightarrow> searchCinemeta e (title p) (type p) (year p) s = (None, s2) \<Longrightarrow>
   catalog_step e ct t metas seen s =
     (Inr (if ''tb:'' @ String_js (torrent_id t) \<in> seen then metas
           else metas @ [\<lparr>cat_id = ''tb:'' @ String_js (torrent_id t), cat_type = ct,
                           cat_name = title p, torboxId = torrent_id t,
                           cat_quality = quality_of p
                             (if torrent_name t \<noteq> [] then torrent_name t else ''Sans nom''),
                           torrentName =
                             (if torrent_name t \<noteq> [] then torrent_name t else ''Sans nom'')\<rparr>],
           insert (''tb:'' @ String_js (torrent_id t)) seen), s2)"
  by (auto simp add: catalog_step_def Let_def insert_absorb)

lemma catalog_loop_cap:
  "length metas \<ge> 20 \<Longrightarrow> catalog_loop e ct ts metas seen s = (Inr (metas, seen), s)"
  by (cases ts) simp_all

lemma catalog_loop_append:
  "catalog_loop e ct (xs @ ys) metas seen s =
     (case catalog_loop e ct xs metas seen s of
        (Inl ex, s1) \<Rightarrow> (Inl ex, s1)
      | (Inr (m1, seen1), s1) \<Rightarrow> catalog_loop e ct ys m1 seen1 s1)"
proof (induction xs arbitrary: metas seen s)
  case Nil
  show ?case by simp
next
  case (Cons t rest)
  show ?case
  proof (cases "length metas \<ge> 20")
    case True
    then show ?thesis by (simp add: catalog_loop_cap)
  next
    case False
    then show ?thesis
      by (simp add: Cons.IH split: sum.splits prod.splits)
  qed
qed

text \<open>Whatever holds at the start and survives one more entry holds for the loop's result.\<close>

lemma catalog_loop_invariant:
  assumes run: "catalog_loop e ct ts metas seen s = (Inr (m', seen'), s')"
    and start: "P metas seen"
    and step: "\<And>ms sn x. P ms sn \<Longrightarrow> length ms < 20 \<Longrightarrow> cat_id x \<notin> sn \<Longrightarrow> cat_type x = ct \<Longrightarrow>
                 (\<exists>p. parseTorrentName (ptt_parse e) (torrentName x) = Inr p \<and> type p = ct) \<Longrightarrow>
                 P (ms @ [x]) (insert (cat_id x) sn)"
  shows "P m' seen'"
  using run start
proof (induction ts arbitrary: metas seen s)
  case Nil
  then show ?case by simp
next
  case (Cons t rest)
  show ?case
  proof (cases "length metas \<ge> 20")
    case True
    with Cons.prems show ?thesis by simp
  next
    case False
    with Cons.prems(1) obtain m1 seen1 s1 where
      st: "catalog_step e ct t metas seen s = (Inr (m1, seen1), s1)" and
      rest: "catalog_loop e ct rest m1 seen1 s1 = (Inr (m', seen'), s')"
      by (auto split: sum.splits prod.splits)
    have "P m1 seen1"
      using catalog_step_cases [OF st] Cons.prems(2) False step by (auto simp: not_le)
    with rest show ?thesis by (rule Cons.IH)
  qed
qed

lemma catalog_loop_seen:
  "catalog_loop e ct ts metas seen s = (Inr (m', seen'), s') \<Longrightarrow>
   seen = cat_id ` set metas \<Longrightarrow> seen' = cat_id ` set m'"
  by (erule catalog_loop_invariant [where P = "\<lambda>ms sn. sn = cat_id ` set ms"]) auto

lemma catalog_loop_distinct:
  "catalog_loop e ct ts metas seen s = (Inr (m', seen'), s') \<Longrightarrow>
   seen = cat_id ` set metas \<Longrightarrow> distinct (map cat_id metas) \<Longrightarrow> distinct (map cat_id m')"
  using catalog_loop_invariant
    [where P = "\<lambda>ms sn. sn = cat_id ` set ms \<and> distinct (map cat_id ms)"
       and e = e and ct = ct and ts = ts and metas = metas and seen = seen and s = s
       and m' = m' and seen' = seen' and s' = s']
  by auto

lemma catalog_loop_length:
  "catalog_loop e ct ts metas seen s = (Inr (m', seen'), s') \<Longrightarrow>
   length metas \<le> 20 \<Longrightarrow> length m' \<le> 20"
  by (erule catalog_loop_invariant [where P = "\<lambda>ms sn. length ms \<le> 20"]) auto

lemma catalog_loop_kind:
  "catalog_loop e ct ts metas seen s = (Inr (m', seen'), s') \<Longrightarrow>
   \<forall>m \<in> set metas. cat_type m = ct \<and>
      (\<exists>p. parseTorrentName (ptt_parse e) (torrentName m) = Inr p \<and> type p = ct) \<Longrightarrow>
   \<forall>m \<in> set m'. cat_type m = ct \<and>
      (\<exists>p. parseTorrentName (ptt_parse e) (torrentName m) = Inr p \<and> type p = ct)"
  by (erule catalog_loop_invariant
       [where P = "\<lambda>ms sn. \<forall>m \<in> set ms. cat_type m = ct \<and>
          (\<exists>p. parseTorrentName (ptt_parse e) (torrentName m) = Inr p \<and> type p = ct)"]) auto

lemma catalog_step_prefix:
  "catalog_step e ct t metas seen s = (Inr (m1, seen1), s1) \<Longrightarrow> prefix metas m1"
  by (drule catalog_step_cases) auto

lemma catalog_loop_prefix:
  "catalog_loop e ct ts metas seen s = (Inr (m', seen'), s') \<Longrightarrow> prefix metas m'"
proof (induction ts arbitrary: metas seen s)
  case Nil
  then show ?case by simp
next
  case (Cons t rest)
  show ?case
  proof (cases "length metas \<ge> 20")
    case True
    with Cons.prems show ?thesis by simp
  next
    case False
    with Cons.prems(1) obtain m1 seen1 s1 where
      st: "catalog_step e ct t metas seen s = (Inr (m1, seen1), s1)" and
      rest: "catalog_loop e ct rest m1 seen1 s1 = (Inr (m', seen'), s')"
      by (auto split: sum.splits prod.splits)
    from catalog_step_prefix [OF st] Cons.IH [OF rest] show ?thesis
      by (rule prefix_order.trans)
  qed
qed

lemma count_one_of_distinct:
  "distinct (map f xs) \<Longrightarrow> a \<in> f ` set xs \<Longrightarrow> length (filter (\<lambda>x. f x = a) xs) = 1"
proof (induction xs)
  case Nil
  then show ?case by simp
next
  case (Cons x xs)
  show ?case
  proof (cases "f x = a")
    case True
    from Cons.prems(1) have "f x \<notin> f ` set xs" by simp
    with True have "\<forall>y \<in> set xs. f y \<noteq> a" by blast
    then have "filter (\<lambda>x. f x = a) xs = []"
      by (simp add: filter_empty_conv)
    with True show ?thesis by simp
  next
    case False
    with Cons show ?thesis by auto
  qed
qed

lemma count_le_one_of_distinct:
  "distinct (map f xs) \<Longrightarrow> length (filter (\<lambda>x. f x = a) xs) \<le> 1"
proof (cases "a \<in> f ` set xs")
  case True
  assume "distinct (map f xs)"
  from count_one_of_distinct [OF this True] show ?thesis by simp
next
  case False
  then have "filter (\<lambda>x. f x = a) xs = []"
    by (auto simp add: filter_empty_conv)
  then show ?thesis by simp
qed

text \<open>The listing of a pass is what the loop built, or empty when the loop was left by an exception.\<close>

lemma handleMediaCatalog_run:
  "getTorboxTorrents e s = (Inr ts, s0) \<Longrightarrow>
   catalog_loop e ct (array_sort e (compare_dates e) ts) [] {} s0 = (Inr (final, seenF), sF) \<Longrightarrow>
   handleMediaCatalog e ct s = (final, sF)"
  by (simp add: handleMediaCatalog_def)

lemma handleMediaCatalog_cases:
  "fst (handleMediaCatalog e ct s) = [] \<or>
   (\<exists>ts s0 final seenF sF. getTorboxTorrents e s = (Inr ts, s0) \<and>
      catalog_loop e ct (array_sort e (compare_dates e) ts) [] {} s0 = (Inr (final, seenF), sF) \<and>
      fst (handleMediaCatalog e ct s) = final)"
  by (auto simp add: handleMediaCatalog_def split: prod.splits sum.splits)

text \<open>
  Claim C6. A listing has at most 20 entries; every entry carries the requested kind and
  the name it was built from parses to that kind; and once the loop has 20 entries after a
  front part of the sorted inventory, the pass ends with exactly that listing and that
  state: for the entries behind, whatever they are, no request is issued, no cache is
  written, and a parser that would raise on them is not called.
\<close>

theorem C6_catalog_cap_and_kind:
  "length (fst (handleMediaCatalog e ct s)) \<le> 20 \<and>
   (\<forall>m \<in> set (fst (handleMediaCatalog e ct s)).
      cat_type m = ct \<and>
      (\<exists>p. parseTorrentName (ptt_parse e) (torrentName m) = Inr p \<and> type p = ct)) \<and>
   (\<forall>ts s0 before after ms seen s1.
      getTorboxTorrents e s = (Inr ts, s0) \<and>
      array_sort e (compare_dates e) ts = before @ after \<and>
      catalog_loop e ct before [] {} s0 = (Inr (ms, seen), s1) \<and> length ms = 20 \<longrightarrow>
      handleMediaCatalog e ct s = (ms, s1))"
proof (intro conjI allI impI)
  show "length (fst (handleMediaCatalog e ct s)) \<le> 20"
    using handleMediaCatalog_cases [of e ct s] catalog_loop_length [of e ct _ "[]" "{}"]
    by fastforce
next
  show "\<forall>m \<in> set (fst (handleMediaCatalog e ct s)).
      cat_type m = ct \<and>
      (\<exists>p. parseTorrentName (ptt_parse e) (torrentName m) = Inr p \<and> type p = ct)"
    using handleMediaCatalog_cases [of e ct s] catalog_loop_kind [of e ct _ "[]" "{}"]
    by fastforce
next
  fix ts s0 before after ms seen s1
  assume h: "getTorboxTorrents e s = (Inr ts, s0) \<and>
      array_sort e (compare_dates e) ts = before @ after \<and>
      catalog_loop e ct before [] {} s0 = (Inr (ms, seen), s1) \<and> length ms = 20"
  then have "catalog_loop e ct (array_sort e (compare_dates e) ts) [] {} s0 = (Inr (ms, seen), s1)"
    by (simp add: catalog_loop_append catalog_loop_cap)
  with h show "handleMediaCatalog e ct s = (ms, s1)"
    by (simp add: handleMediaCatalog_run)
qed

text \<open>
  The theorem at an inventory of twenty films followed by an older entry on which the
  parser raises: the twenty films are listed and the last entry is never looked at.
\<close>

theorem C6_catalog_cap_and_kind_witness:
  "array_sort (raising_env (films @ [broken_entry]))
     (compare_dates (raising_env (films @ [broken_entry]))) (films @ [broken_entry])
     = films @ [broken_entry] \<and>
   parseTorrentName (ptt_parse (raising_env (films @ [broken_entry]))) (torrent_name broken_entry)
     = Inl LibraryError \<and>
   length (fst (handleMediaCatalog (raising_env (films @ [broken_entry])) ''movie'' empty_state)) = 20 \<and>
   map torboxId (fst (handleMediaCatalog (raising_env (films @ [broken_entry])) ''movie'' empty_state))
     = [1..<21]"
proof -
  define E where "E = raising_env (films @ [broken_entry])"
  define S0 where "S0 = snd (getTorboxTorrents E empty_state)"
  have "fst (getTorboxTorrents E empty_state) = Inr (films @ [broken_entry])"
    unfolding E_def by code_simp
  then have g: "getTorboxTorrents E empty_state = (Inr (films @ [broken_entry]), S0)"
    unfolding S0_def by (rule pair_of_fst)
  have srt: "array_sort E (compare_dates E) (films @ [broken_entry]) = films @ [broken_entry]"
    unfolding E_def by code_simp
  have "case fst (catalog_loop E ''movie'' films [] {} S0) of
          Inl ex \<Rightarrow> False | Inr v \<Rightarrow> length (fst v) = 20"
    unfolding E_def S0_def by code_simp
  then obtain ms seen s1 where
    lp: "catalog_loop E ''movie'' films [] {} S0 = (Inr (ms, seen), s1)" and len: "length ms = 20"
    using run_of_not_raised [where P = "\<lambda>ms. length ms = 20"] by blast
  note inst = C6_catalog_cap_and_kind [of E "''movie''" empty_state, THEN conjunct2, THEN conjunct2,
                rule_format]
  have "handleMediaCatalog E ''movie'' empty_state = (ms, s1)"
    apply (rule inst)
    apply (rule conjI, rule g)
    apply (rule conjI, rule srt)
    apply (rule conjI, rule lp)
    apply (rule len)
    done
  with len have "length (fst (handleMediaCatalog E ''movie'' empty_state)) = 20" by simp
  moreover have "parseTorrentName (ptt_parse E) (torrent_name broken_entry) = Inl LibraryError"
    unfolding E_def by code_simp
  moreover have "map torboxId (fst (handleMediaCatalog E ''movie'' empty_state)) = [1..<21]"
    unfolding E_def by code_simp
  ultimately show ?thesis using srt unfolding E_def by simp
qed


text \<open>
  Claim C4, amended. The ids of a listing are pairwise different, so the listing has at
  most one entry under any id. And when an entry is reached by the loop with fewer than
  20 entries listed, has the requested kind and is resolved to a record, then a pass that
  no exception ends lists exactly one entry under that record's id, wherever the entry
  stands in the inventory and whichever entries resolve to the same record.
\<close>

theorem C4_catalog_ids_unique:
  "distinct (map cat_id (fst (handleMediaCatalog e ct s))) \<and>
   (\<forall>i. length (filter (\<lambda>m. cat_id m = i) (fst (handleMediaCatalog e ct s))) \<le> 1) \<and>
   (\<forall>ts s0 before t after ms seen s1 p r s2 final seenF sF.
      getTorboxTorrents e s = (Inr ts, s0) \<and>
      array_sort e (compare_dates e) ts = before @ t # after \<and>
      catalog_loop e ct before [] {} s0 = (Inr (ms, seen), s1) \<and> length ms < 20 \<and>
      parseTorrentName (ptt_parse e)
        (if torrent_name t \<noteq> [] then torrent_name t else ''Sans nom'') = Inr p \<and>
      type p = ct \<and>
      searchCinemeta e (title p) (type p) (year p) s1 = (Some r, s2) \<and>
      catalog_loop e ct (before @ t # after) [] {} s0 = (Inr (final, seenF), sF) \<longrightarrow>
      length (filter (\<lambda>m. cat_id m = meta_id r) (fst (handleMediaCatalog e ct s))) = 1)"
proof (intro conjI allI impI)
  show d: "distinct (map cat_id (fst (handleMediaCatalog e ct s)))"
    using handleMediaCatalog_cases [of e ct s] catalog_loop_distinct [of e ct _ "[]" "{}"]
    by fastforce
  fix i
  from d show "length (filter (\<lambda>m. cat_id m = i) (fst (handleMediaCatalog e ct s))) \<le> 1"
    by (rule count_le_one_of_distinct)
next
  fix ts s0 before t after ms seen s1 p r s2 final seenF sF
  assume h: "getTorboxTorrents e s = (Inr ts, s0) \<and>
      array_sort e (compare_dates e) ts = before @ t # after \<and>
      catalog_loop e ct before [] {} s0 = (Inr (ms, seen), s1) \<and> length ms < 20 \<and>
      parseTorrentName (ptt_parse e)
        (if torrent_name t \<noteq> [] then torrent_name t else ''Sans nom'') = Inr p \<and>
      type p = ct \<and>
      searchCinemeta e (title p) (type p) (year p) s1 = (Some r, s2) \<and>
      catalog_loop e ct (before @ t # after) [] {} s0 = (Inr (final, seenF), sF)"
  then have res: "handleMediaCatalog e ct s = (final, sF)"
    by (simp add: handleMediaCatalog_run)
  from h have seen: "seen = cat_id ` set ms"
    using catalog_loop_seen [of e ct before "[]" "{}" s0 ms seen s1] by simp
  from h obtain m1 seen1 s3 where
    st: "catalog_step e ct t ms seen s1 = (Inr (m1, seen1), s3)" and mem: "meta_id r \<in> seen1"
    using catalog_step_found [of e t p ct s1 r s2 ms seen] by auto
  from catalog_step_cases [OF st] seen have seen1: "seen1 = cat_id ` set m1" by auto
  from h have lp: "catalog_loop e ct before [] {} s0 = (Inr (ms, seen), s1)"
    and len: "length ms < 20"
    and fin: "catalog_loop e ct (before @ t # after) [] {} s0 = (Inr (final, seenF), sF)"
    by simp_all
  have "catalog_loop e ct (before @ t # after) [] {} s0 = catalog_loop e ct (t # after) ms seen s1"
    by (simp add: catalog_loop_append lp)
  also have "\<dots> = catalog_loop e ct after m1 seen1 s3"
    using len by (simp add: st)
  finally have rest: "catalog_loop e ct after m1 seen1 s3 = (Inr (final, seenF), sF)"
    using fin by simp
  from catalog_loop_prefix [OF rest] have "set m1 \<subseteq> set final"
    by (auto simp add: prefix_def)
  with mem seen1 have inl: "meta_id r \<in> cat_id ` set final" by auto
  from h have "distinct (map cat_id final)"
    using catalog_loop_distinct [of e ct "before @ t # after" "[]" "{}" s0 final seenF sF] by simp
  from count_one_of_distinct [OF this inl] res show
    "length (filter (\<lambda>m. cat_id m = meta_id r) (fst (handleMediaCatalog e ct s))) = 1"
    by simp
qed

text \<open>
  The theorem at an inventory that holds two quality variants of one film, for the variant
  that comes second in the recency order: its record is listed already when the loop
  reaches it, and the listing ends with that one entry.
\<close>

theorem C4_catalog_ids_unique_witness:
  "array_sort (sample_env [variant_1080p, variant_2160p])
     (compare_dates (sample_env [variant_1080p, variant_2160p])) [variant_1080p, variant_2160p]
     = [variant_2160p, variant_1080p] \<and>
   fst (searchCinemeta (sample_env [variant_1080p, variant_2160p]) ''Movie Name'' ''movie'' (Some 2021)
         (snd (catalog_loop (sample_env [variant_1080p, variant_2160p]) ''movie'' [variant_2160p] [] {}
                (snd (getTorboxTorrents (sample_env [variant_1080p, variant_2160p]) empty_state)))))
     = Some movie_meta \<and>
   map cat_id (fst (handleMediaCatalog (sample_env [variant_1080p, variant_2160p]) ''movie'' empty_state))
     = [''tt1234567''] \<and>
   length (filter (\<lambda>m. cat_id m = ''tt1234567'')
     (fst (handleMediaCatalog (sample_env [variant_1080p, variant_2160p]) ''movie'' empty_state))) = 1"
proof -
  define E where "E = sample_env [variant_1080p, variant_2160p]"
  define S0 where "S0 = snd (getTorboxTorrents E empty_state)"
  define S1 where "S1 = snd (catalog_loop E ''movie'' [variant_2160p] [] {} S0)"
  define ms where "ms = [\<lparr>cat_id = ''tt1234567'', cat_type = ''movie'', cat_name = ''Movie Name'',
                          torboxId = 2, cat_quality = ''2160p'',
                          torrentName = ''Movie.Name.2021.2160p.WEB.mkv''\<rparr>]"
  define p where "p = \<lparr>title = ''Movie Name'', year = Some 2021, season = None, episode = None,
                        quality = Some ''1080p'', type = ''movie''\<rparr>"
  define S2 where "S2 = snd (searchCinemeta E (title p) (type p) (year p) S1)"
  have "fst (getTorboxTorrents E empty_state) = Inr [variant_1080p, variant_2160p]"
    unfolding E_def by code_simp
  then have g: "getTorboxTorrents E empty_state = (Inr [variant_1080p, variant_2160p], S0)"
    unfolding S0_def by (rule pair_of_fst)
  have srt: "array_sort E (compare_dates E) [variant_1080p, variant_2160p] = [variant_2160p] @ variant_1080p # []"
    unfolding E_def by code_simp
  have "fst (catalog_loop E ''movie'' [variant_2160p] [] {} S0) = Inr (ms, {''tt1234567''})"
    unfolding E_def S0_def ms_def by code_simp
  then have lp: "catalog_loop E ''movie'' [variant_2160p] [] {} S0 = (Inr (ms, {''tt1234567''}), S1)"
    unfolding S1_def by (rule pair_of_fst)
  have len: "length ms < 20" by (simp add: ms_def)
  have pr: "parseTorrentName (ptt_parse E)
        (if torrent_name variant_1080p \<noteq> [] then torrent_name variant_1080p else ''Sans nom'') = Inr p"
    unfolding E_def p_def by code_simp
  have ty: "type p = ''movie''" by (simp add: p_def)
  have sr0: "fst (searchCinemeta E (title p) (type p) (year p) S1) = Some movie_meta"
    unfolding E_def p_def S1_def S0_def by code_simp
  then have sr: "searchCinemeta E (title p) (type p) (year p) S1 = (Some movie_meta, S2)"
    unfolding S2_def by (rule pair_of_fst)
  have "case fst (catalog_loop E ''movie'' ([variant_2160p] @ variant_1080p # []) [] {} S0) of
          Inl ex \<Rightarrow> False | Inr v \<Rightarrow> True"
    unfolding E_def S0_def by code_simp
  then obtain final seenF sF where
    fin: "catalog_loop E ''movie'' ([variant_2160p] @ variant_1080p # []) [] {} S0 = (Inr (final, seenF), sF)"
    using run_of_not_raised [where P = "\<lambda>_. True"] by blast
  note inst = C4_catalog_ids_unique [of E "''movie''" empty_state, THEN conjunct2, THEN conjunct2,
                rule_format]
  have "length (filter (\<lambda>m. cat_id m = meta_id movie_meta) (fst (handleMediaCatalog E ''movie'' empty_state))) = 1"
    apply (rule inst)
    apply (rule conjI, rule g)
    apply (rule conjI, rule srt)
    apply (rule conjI, rule lp)
    apply (rule conjI, rule len)
    apply (rule conjI, rule pr)
    apply (rule conjI, rule ty)
    apply (rule conjI, rule sr)
    apply (rule fin)
    done
  moreover have "meta_id movie_meta = ''tt1234567''" by (simp add: movie_meta_def)
  ultimately have f4: "length (filter (\<lambda>m. cat_id m = ''tt1234567'') (fst (handleMediaCatalog E ''movie'' empty_state))) = 1"
    by simp
  have f3: "map cat_id (fst (handleMediaCatalog E ''movie'' empty_state)) = [''tt1234567'']"
    unfolding E_def by code_simp
  have tp: "title p = ''Movie Name''" "type p = ''movie''" "year p = Some 2021"
    by (simp_all add: p_def)
  have f1: "array_sort E (compare_dates E) [variant_1080p, variant_2160p] = [variant_2160p, variant_1080p]"
    using srt by simp
  note g1 = f1 [unfolded E_def]
  note g2 = sr0 [unfolded tp, unfolded S1_def, unfolded S0_def, unfolded E_def]
  note g3 = f3 [unfolded E_def]
  note g4 = f4 [unfolded E_def]
  show ?thesis
    by (intro conjI; fact g1 g2 g3 g4)
qed

text \<open>
  Claim C4 as stated has exactly one entry listed for an id to which two inventory entries
  resolve. Each of the two variants is listed under the film's id when it stands alone.
  With an older entry behind them on which the parser raises, both are resolved and the
  listing is empty; and with twenty newer films ahead of them the cap is reached before
  them, and the listing has no entry under that id.
\<close>

theorem C4_no_entry_for_resolved_id_counterexample:
  "map cat_id (fst (handleMediaCatalog (raising_env [variant_1080p]) ''movie'' empty_state))
     = [''tt1234567''] \<and>
   map cat_id (fst (handleMediaCatalog (raising_env [variant_2160p]) ''movie'' empty_state))
     = [''tt1234567''] \<and>
   length (filter (\<lambda>m. cat_id m = ''tt1234567'')
     (fst (handleMediaCatalog (raising_env [variant_1080p, variant_2160p, broken_entry])
            ''movie'' empty_state))) = 0 \<and>
   map cat_id (fst (handleMediaCatalog
          (sample_env [entry 31 ''Movie.Name.2021.1080p.BluRay.mkv'' (JNum 1500000000) JUndefined])
          ''movie'' empty_state))
     = [''tt1234567''] \<and>
   map cat_id (fst (handleMediaCatalog
          (sample_env [entry 32 ''Movie.Name.2021.2160p.WEB.mkv'' (JNum 1500000500) JUndefined])
          ''movie'' empty_state))
     = [''tt1234567''] \<and>
   length (filter (\<lambda>m. cat_id m = ''tt1234567'')
     (fst (handleMediaCatalog
            (sample_env (films @
               [entry 31 ''Movie.Name.2021.1080p.BluRay.mkv'' (JNum 1500000000) JUndefined,
                entry 32 ''Movie.Name.2021.2160p.WEB.mkv'' (JNum 1500000500) JUndefined]))
            ''movie'' empty_state))) = 0"
  by code_simp


text \<open>
  Claim C3, amended. A failed inventory pull gives the empty listing. An exception of the
  parser at an entry the loop reaches is not caught at that entry: it ends the pass with
  the empty listing, whatever was collected before. A search that fails (rejected, or a
  non-success status) is no exception: the pass goes on to the remaining entries, the
  entry being listed under its fallback id unless that id was listed already.
\<close>

theorem C3_failure_semantics:
  "(\<forall>ex s1. getTorboxTorrents e s = (Inl ex, s1) \<longrightarrow> handleMediaCatalog e ct s = ([], s1)) \<and>
   (\<forall>ts s0 before t after ms seen s1 ex.
      getTorboxTorrents e s = (Inr ts, s0) \<and>
      array_sort e (compare_dates e) ts = before @ t # after \<and>
      catalog_loop e ct before [] {} s0 = (Inr (ms, seen), s1) \<and> length ms < 20 \<and>
      parseTorrentName (ptt_parse e)
        (if torrent_name t \<noteq> [] then torrent_name t else ''Sans nom'') = Inl ex \<longrightarrow>
      handleMediaCatalog e ct s = ([], s1)) \<and>
   (\<forall>t rest ms seen s1 p.
      length ms < 20 \<and>
      parseTorrentName (ptt_parse e)
        (if torrent_name t \<noteq> [] then torrent_name t else ''Sans nom'') = Inr p \<and>
      type p = ct \<and>
      map_of (searchCache s1) (cache_key (type p) (title p) (year p)) = None \<and>
      (fetch e (length (requests s1)) (search_url (type p) (title p)) = Rejected \<or>
       (\<exists>st b. fetch e (length (requests s1)) (search_url (type p) (title p)) = Response st b \<and>
                \<not> response_ok st)) \<longrightarrow>
      catalog_loop e ct (t # rest) ms seen s1 =
        catalog_loop e ct rest
          (if ''tb:'' @ String_js (torrent_id t) \<in> seen then ms
           else ms @ [\<lparr>cat_id = ''tb:'' @ String_js (torrent_id t), cat_type = ct,
                        cat_name = title p, torboxId = torrent_id t,
                        cat_quality = quality_of p
                          (if torrent_name t \<noteq> [] then torrent_name t else ''Sans nom''),
                        torrentName =
                          (if torrent_name t \<noteq> [] then torrent_name t else ''Sans nom'')\<rparr>])
          (insert (''tb:'' @ String_js (torrent_id t)) seen)
          (s1\<lparr>requests := requests s1 @ [search_url (type p) (title p)]\<rparr>))"
proof (intro conjI allI impI)
  fix ex s1
  assume "getTorboxTorrents e s = (Inl ex, s1)"
  then show "handleMediaCatalog e ct s = ([], s1)"
    by (simp add: handleMediaCatalog_def)
next
  fix ts s0 before t after ms seen s1 ex
  assume h: "getTorboxTorrents e s = (Inr ts, s0) \<and>
      array_sort e (compare_dates e) ts = before @ t # after \<and>
      catalog_loop e ct before [] {} s0 = (Inr (ms, seen), s1) \<and> length ms < 20 \<and>
      parseTorrentName (ptt_parse e)
        (if torrent_name t \<noteq> [] then torrent_name t else ''Sans nom'') = Inl ex"
  then have st: "catalog_step e ct t ms seen s1 = (Inl ex, s1)"
    by (simp add: catalog_step_raises)
  from h have lp: "catalog_loop e ct before [] {} s0 = (Inr (ms, seen), s1)"
    and len: "length ms < 20"
    and srt: "array_sort e (compare_dates e) ts = before @ t # after"
    by simp_all
  have "catalog_loop e ct (before @ t # after) [] {} s0 = catalog_loop e ct (t # after) ms seen s1"
    by (simp add: catalog_loop_append lp)
  also have "\<dots> = (Inl ex, s1)"
    using len by (simp add: st)
  finally have "catalog_loop e ct (array_sort e (compare_dates e) ts) [] {} s0 = (Inl ex, s1)"
    by (simp add: srt)
  with h show "handleMediaCatalog e ct s = ([], s1)"
    by (simp add: handleMediaCatalog_def)
next
  fix t :: torrent and rest :: "torrent list" and ms :: "catalog_meta list"
    and seen :: "string set" and p :: descriptor and s1 :: state
  assume h: "length ms < 20 \<and>
      parseTorrentName (ptt_parse e)
        (if torrent_name t \<noteq> [] then torrent_name t else ''Sans nom'') = Inr p \<and>
      type p = ct \<and>
      map_of (searchCache s1) (cache_key (type p) (title p) (year p)) = None \<and>
      (fetch e (length (requests s1)) (search_url (type p) (title p)) = Rejected \<or>
       (\<exists>st b. fetch e (length (requests s1)) (search_url (type p) (title p)) = Response st b \<and>
                \<not> response_ok st))"
  then have "searchCinemeta e (title p) (type p) (year p) s1 =
      (None, s1\<lparr>requests := requests s1 @ [search_url (type p) (title p)]\<rparr>)"
    using searchCinemeta_rejected searchCinemeta_status by blast
  with h have "catalog_step e ct t ms seen s1 =
     (Inr (if ''tb:'' @ String_js (torrent_id t) \<in> seen then ms
           else ms @ [\<lparr>cat_id = ''tb:'' @ String_js (torrent_id t), cat_type = ct,
                        cat_name = title p, torboxId = torrent_id t,
                        cat_quality = quality_of p
                          (if torrent_name t \<noteq> [] then torrent_name t else ''Sans nom''),
                        torrentName =
                          (if torrent_name t \<noteq> [] then torrent_name t else ''Sans nom'')\<rparr>],
           insert (''tb:'' @ String_js (torrent_id t)) seen),
      s1\<lparr>requests := requests s1 @ [search_url (type p) (title p)]\<rparr>)"
    using catalog_step_not_found [of e t p ct s1] by blast
  with h show "catalog_loop e ct (t # rest) ms seen s1 =
        catalog_loop e ct rest
          (if ''tb:'' @ String_js (torrent_id t) \<in> seen then ms
           else ms @ [\<lparr>cat_id = ''tb:'' @ String_js (torrent_id t), cat_type = ct,
                        cat_name = title p, torboxId = torrent_id t,
                        cat_quality = quality_of p
                          (if torrent_name t \<noteq> [] then torrent_name t else ''Sans nom''),
                        torrentName =
                          (if torrent_name t \<noteq> [] then torrent_name t else ''Sans nom'')\<rparr>])
          (insert (''tb:'' @ String_js (torrent_id t)) seen)
          (s1\<lparr>requests := requests s1 @ [search_url (type p) (title p)]\<rparr>)"
    by simp
qed

text \<open>
  The theorem at a process without the environment variable, at an inventory whose second
  entry makes the parser raise, and at a catalogue that answers with status 500.
\<close>

theorem C3_failure_semantics_witness:
  "handleMediaCatalog keyless_env ''movie'' empty_state = ([], empty_state) \<and>
   fst (getTorboxTorrents (raising_env [variant_1080p, broken_entry]) empty_state)
     = Inr [variant_1080p, broken_entry] \<and>
   parseTorrentName (ptt_parse (raising_env [variant_1080p, broken_entry])) (torrent_name broken_entry)
     = Inl LibraryError \<and>
   fst (handleMediaCatalog (raising_env [variant_1080p, broken_entry]) ''movie'' empty_state) = [] \<and>
   fst (catalog_loop failing_env ''movie'' [entry 5 ''Film'' JNull JNull] [] {} empty_state)
     = Inr ([\<lparr>cat_id = ''tb:5'', cat_type = ''movie'', cat_name = ''Film'', torboxId = 5,
               cat_quality = [], torrentName = ''Film''\<rparr>], {''tb:5''})"
proof -
  have k: "getTorboxTorrents keyless_env empty_state = (Inl ConfigMissing, empty_state)"
    by (simp add: getTorboxTorrents_def keyless_env_def sample_env_def)
  note inst1 = C3_failure_semantics [of keyless_env empty_state "''movie''", THEN conjunct1, rule_format]
  have first: "handleMediaCatalog keyless_env ''movie'' empty_state = ([], empty_state)"
    by (rule inst1) (rule k)
  define E where "E = raising_env [variant_1080p, broken_entry]"
  define S0 where "S0 = snd (getTorboxTorrents E empty_state)"
  have g0: "fst (getTorboxTorrents E empty_state) = Inr [variant_1080p, broken_entry]"
    unfolding E_def by code_simp
  then have g: "getTorboxTorrents E empty_state = (Inr [variant_1080p, broken_entry], S0)"
    unfolding S0_def by (rule pair_of_fst)
  have srt: "array_sort E (compare_dates E) [variant_1080p, broken_entry] = [variant_1080p] @ broken_entry # []"
    unfolding E_def by code_simp
  have "case fst (catalog_loop E ''movie'' [variant_1080p] [] {} S0) of
          Inl ex \<Rightarrow> False | Inr v \<Rightarrow> length (fst v) < 20"
    unfolding E_def S0_def by code_simp
  then obtain ms seen s1 where
    lp: "catalog_loop E ''movie'' [variant_1080p] [] {} S0 = (Inr (ms, seen), s1)" and len: "length ms < 20"
    using run_of_not_raised [where P = "\<lambda>ms. length ms < 20"] by blast
  have pr0: "parseTorrentName (ptt_parse E) (torrent_name broken_entry) = Inl LibraryError"
    unfolding E_def by code_simp
  have pr: "parseTorrentName (ptt_parse E)
        (if torrent_name broken_entry \<noteq> [] then torrent_name broken_entry else ''Sans nom'')
      = Inl LibraryError"
    unfolding E_def by code_simp
  note inst2 = C3_failure_semantics [of E empty_state "''movie''", THEN conjunct2, THEN conjunct1,
                 rule_format]
  have "handleMediaCatalog E ''movie'' empty_state = ([], s1)"
    apply (rule inst2)
    apply (rule conjI, rule g)
    apply (rule conjI, rule srt)
    apply (rule conjI, rule lp)
    apply (rule conjI, rule len)
    apply (rule pr)
    done
  then have second: "fst (handleMediaCatalog E ''movie'' empty_state) = []" by simp
  define t where "t = entry 5 ''Film'' JNull JNull"
  define p where "p = \<lparr>title = ''Film'', year = None, season = None, episode = None,
                        quality = None, type = ''movie''\<rparr>"
  have len3: "length ([] :: catalog_meta list) < 20" by simp
  have pr3: "parseTorrentName (ptt_parse failing_env)
        (if torrent_name t \<noteq> [] then torrent_name t else ''Sans nom'') = Inr p"
    unfolding t_def p_def by code_simp
  have ty3: "type p = ''movie''" by (simp add: p_def)
  have nc: "map_of (searchCache empty_state) (cache_key (type p) (title p) (year p)) = None"
    by (simp add: empty_state_def)
  have "fetch failing_env (length (requests empty_state)) (search_url (type p) (title p)) = Response 500 None"
    by (simp add: failing_env_def)
  moreover have "\<not> response_ok 500" by (simp add: response_ok_def)
  ultimately have fl: "fetch failing_env (length (requests empty_state)) (search_url (type p) (title p)) = Rejected \<or>
       (\<exists>st b. fetch failing_env (length (requests empty_state)) (search_url (type p) (title p)) = Response st b \<and>
                \<not> response_ok st)" by blast
  note inst3 = C3_failure_semantics [of failing_env empty_state "''movie''", THEN conjunct2, THEN conjunct2,
                 rule_format, of "[]" t p empty_state "[]" "{}"]
  have "catalog_loop failing_env ''movie'' (t # []) [] {} empty_state =
        catalog_loop failing_env ''movie'' []
          (if ''tb:'' @ String_js (torrent_id t) \<in> {} then []
           else [] @ [\<lparr>cat_id = ''tb:'' @ String_js (torrent_id t), cat_type = ''movie'',
                        cat_name = title p, torboxId = torrent_id t,
                        cat_quality = quality_of p
                          (if torrent_name t \<noteq> [] then torrent_name t else ''Sans nom''),
                        torrentName =
                          (if torrent_name t \<noteq> [] then torrent_name t else ''Sans nom'')\<rparr>])
          (insert (''tb:'' @ String_js (torrent_id t)) {})
          (empty_state\<lparr>requests := requests empty_state @ [search_url (type p) (title p)]\<rparr>)"
    apply (rule inst3)
    apply (rule conjI, rule len3)
    apply (rule conjI, rule pr3)
    apply (rule conjI, rule ty3)
    apply (rule conjI, rule nc)
    apply (rule fl)
    done
  moreover have "String_js 5 = ''5''" by code_simp
  moreover have "quality_of p ''Film'' = []" unfolding p_def by code_simp
  ultimately have third: "fst (catalog_loop failing_env ''movie'' [entry 5 ''Film'' JNull JNull] [] {} empty_state)
     = Inr ([\<lparr>cat_id = ''tb:5'', cat_type = ''movie'', cat_name = ''Film'', torboxId = 5,
               cat_quality = [], torrentName = ''Film''\<rparr>], {''tb:5''})"
    by (simp add: t_def p_def entry_def)
  from first second third g0 pr0 show ?thesis unfolding E_def by simp
qed

text \<open>
  Claim C3 as stated has the failing entry skipped and the pass continued. With an
  inventory pull that succeeds and a first entry that is listed when it stands alone, a
  second entry on which the parser raises leaves the listing empty.
\<close>

theorem C3_parser_exception_counterexample:
  "fst (getTorboxTorrents (raising_env [variant_1080p, broken_entry]) empty_state)
     = Inr [variant_1080p, broken_entry] \<and>
   map cat_id (fst (handleMediaCatalog (raising_env [variant_1080p]) ''movie'' empty_state))
     = [''tt1234567''] \<and>
   fst (handleMediaCatalog (raising_env [variant_1080p, broken_entry]) ''movie'' empty_state) = []"
  by code_simp

section \<open>Properties of the inventory cache\<close>

text \<open>
  Claim C1, on the code. A catalogue pass marks entry 1 with the id of its record. The next
  inventory refresh stores the freshly fetched object under the same key, and the object
  in the cache has no mark any more.
\<close>

theorem C1_refresh_drops_annotations:
  "map_option imdbId
     (map_of (torrentsCache
        (snd (handleMediaCatalog (sample_env [variant_1080p]) ''movie'' empty_state))) ''1'')
     = Some (Some ''tt1234567'') \<and>
   map_option imdbId
     (map_of (torrentsCache
        (snd (getTorboxTorrents (sample_env [variant_1080p])
               (snd (handleMediaCatalog (sample_env [variant_1080p]) ''movie'' empty_state))))) ''1'')
     = Some None"
  by code_simp

section \<open>Properties of the recency order\<close>

text \<open>
  Claim C2, on the code. An entry whose \<open>updated_at\<close> is a string that \<open>Date.parse\<close>
  cannot read gets an Invalid Date as its sort date: \<open>created_at\<close>, which is readable,
  is not used. The comparator is \<open>NaN\<close> against such an entry, so it stays behind an
  entry that is older than its \<open>created_at\<close>.
\<close>

theorem C2_unparsable_updated_at:
  "Date_parse (sample_env []) ''not-a-date'' = None \<and>
   sort_date (sample_env []) (entry 1 ''A'' (JStr ''not-a-date'') (JNum 2000000000)) = None \<and>
   parseDate (sample_env []) (JNum 2000000000) = Some (Some 2000000000000) \<and>
   sort_date (sample_env []) (entry 2 ''B'' (JNum 1700000000) JUndefined) = Some 1700000000000 \<and>
   array_sort (sample_env []) (compare_dates (sample_env []))
     [entry 2 ''B'' (JNum 1700000000) JUndefined,
      entry 1 ''A'' (JStr ''not-a-date'') (JNum 2000000000)]
   = [entry 2 ''B'' (JNum 1700000000) JUndefined,
      entry 1 ''A'' (JStr ''not-a-date'') (JNum 2000000000)]"
  by code_simp

section \<open>Properties of the stream resolver\<close>

text \<open>
  Claim C8, on the code. For an entry with the files 0 (\<open>a.mkv\<close>), 1 (\<open>b.MKV\<close>) and
  2 (\<open>c.txt\<close>), one link is requested for each of the two video files; the request for
  file 0 carries no \<open>file_id\<close>, since \<open>if (fileId)\<close> is false for 0.
\<close>

theorem C8_file_id_zero_omitted:
  "requests (snd (generateStreamsForTorrent (sample_env [])
       ((entry 7 ''Pack'' JNull JNull)
          \<lparr>files := Some [\<lparr>file_id = 0, file_name = ''a.mkv''\<rparr>,
                          \<lparr>file_id = 1, file_name = ''b.MKV''\<rparr>,
                          \<lparr>file_id = 2, file_name = ''c.txt''\<rparr>]\<rparr>)
       empty_state))
   = [''https://api.torbox.app/v1/api/torrents/requestdl?token=key&torrent_id=7'',
      ''https://api.torbox.app/v1/api/torrents/requestdl?token=key&torrent_id=7&file_id=1'']"
  by code_simp

lemma startsWith_tt_not_tb: "startsWith i ''tt'' \<Longrightarrow> \<not> startsWith i ''tb:''"
  by (auto simp add: startsWith_def prefix_def)

lemma requestdl_url_is_requestdl: "is_requestdl (requestdl_url key tid f)"
  by (simp add: is_requestdl_def requestdl_url_def)

lemma mylist_url_not_requestdl: "\<not> is_requestdl mylist_url"
  by (simp add: is_requestdl_def mylist_url_def)

lemma search_url_not_requestdl: "\<not> is_requestdl (search_url ty t)"
  by (simp add: is_requestdl_def search_url_def TORBOX_API_URL_def CINEMETA_URL_def)

lemma getTorboxStreamLink_requests:
  "getTorboxStreamLink e tid f s = (r, s1) \<Longrightarrow>
   requests s1 = requests s \<or>
   (\<exists>key. TORBOX_API_KEY e = Some key \<and> requests s1 = requests s @ [requestdl_url key tid f])"
  by (auto simp add: getTorboxStreamLink_def do_fetch_def
           split: option.splits if_splits response.splits prod.splits)

lemma files_loop_requests:
  "files_loop e t fs streams s = (out, s1) \<Longrightarrow>
   \<exists>new. requests s1 = requests s @ new \<and>
     (\<forall>u \<in> set new. \<exists>key f. TORBOX_API_KEY e = Some key \<and> u = requestdl_url key (torrent_id t) f)"
proof (induction fs arbitrary: streams s)
  case Nil
  then show ?case by simp
next
  case (Cons fl rest)
  show ?case
  proof (cases "isVideo fl")
    case False
    with Cons.prems have "files_loop e t rest streams s = (out, s1)" by simp
    then show ?thesis by (rule Cons.IH)
  next
    case True
    obtain r s2 where
      link: "getTorboxStreamLink e (torrent_id t) (Some (file_id fl)) s = (r, s2)"
      by (cases "getTorboxStreamLink e (torrent_id t) (Some (file_id fl)) s")
    with True Cons.prems obtain streams2 where
      "files_loop e t rest streams2 s2 = (out, s1)"
      by (auto split: sum.splits)
    from Cons.IH [OF this] obtain new where
      new: "requests s1 = requests s2 @ new"
        "\<forall>u \<in> set new. \<exists>key f. TORBOX_API_KEY e = Some key \<and> u = requestdl_url key (torrent_id t) f"
      by blast
    from getTorboxStreamLink_requests [OF link] show ?thesis
    proof
      assume "requests s2 = requests s"
      with new show ?thesis by auto
    next
      assume "\<exists>key. TORBOX_API_KEY e = Some key \<and>
                requests s2 = requests s @ [requestdl_url key (torrent_id t) (Some (file_id fl))]"
      then obtain key where "TORBOX_API_KEY e = Some key"
        "requests s2 = requests s @ [requestdl_url key (torrent_id t) (Some (file_id fl))]"
        by blast
      with new have "requests s1 = requests s @ (requestdl_url key (torrent_id t) (Some (file_id fl)) # new)"
        "\<forall>u \<in> set (requestdl_url key (torrent_id t) (Some (file_id fl)) # new).
            \<exists>key f. TORBOX_API_KEY e = Some key \<and> u = requestdl_url key (torrent_id t) f"
        by auto
      then show ?thesis by blast
    qed
  qed
qed

lemma generateStreamsForTorrent_requests:
  "generateStreamsForTorrent e t s = (out, s1) \<Longrightarrow>
   \<exists>new. requests s1 = requests s @ new \<and>
     (\<forall>u \<in> set new. \<exists>key f. TORBOX_API_KEY e = Some key \<and> u = requestdl_url key (torrent_id t) f)"
proof (cases "\<exists>f fs. files t = Some (f # fs)")
  case True
  assume run: "generateStreamsForTorrent e t s = (out, s1)"
  from True obtain f fs where "files t = Some (f # fs)" by blast
  with run have "files_loop e t (f # fs) [] s = (out, s1)"
    by (simp add: generateStreamsForTorrent_def)
  then show ?thesis by (rule files_loop_requests)
next
  case False
  assume run: "generateStreamsForTorrent e t s = (out, s1)"
  obtain r s2 where link: "getTorboxStreamLink e (torrent_id t) None s = (r, s2)"
    by (cases "getTorboxStreamLink e (torrent_id t) None s")
  with False run have "s1 = s2"
    by (auto simp add: generateStreamsForTorrent_def split: option.splits list.splits sum.splits)
  with getTorboxStreamLink_requests [OF link] show ?thesis
    by (metis append_Nil2 empty_iff empty_set set_ConsD)
qed

lemma searchCinemeta_torrentsCache:
  "torrentsCache (snd (searchCinemeta e t ty y s)) = torrentsCache s"
  by (simp add: searchCinemeta_def do_fetch_def Let_def
           split: option.splits response.splits list.splits prod.splits)

lemma getTorboxTorrents_requests:
  "getTorboxTorrents e s = (r, s1) \<Longrightarrow>
   \<exists>new. requests s1 = requests s @ new \<and> (\<forall>u \<in> set new. \<not> is_requestdl u)"
proof -
  assume "getTorboxTorrents e s = (r, s1)"
  then have "requests s1 = requests s @ [] \<or> requests s1 = requests s @ [mylist_url]"
    by (auto simp add: getTorboxTorrents_def do_fetch_def Let_def
             split: if_splits response.splits option.splits prod.splits)
  then show ?thesis
    using mylist_url_not_requestdl
    by (metis empty_iff empty_set set_ConsD)
qed

lemma searchCinemeta_requests_new:
  "searchCinemeta e t ty y s = (r, s1) \<Longrightarrow>
   \<exists>new. requests s1 = requests s @ new \<and> (\<forall>u \<in> set new. \<not> is_requestdl u)"
proof -
  assume "searchCinemeta e t ty y s = (r, s1)"
  with searchCinemeta_requests [of e t ty y s]
  have "requests s1 = requests s @ [] \<or> requests s1 = requests s @ [search_url ty t]"
    by auto
  then show ?thesis
    using search_url_not_requestdl
    by (metis empty_iff empty_set set_ConsD)
qed

lemma resolve_scan_requests:
  "resolve_scan e i kts s = (r, s1) \<Longrightarrow>
   \<exists>new. requests s1 = requests s @ new \<and> (\<forall>u \<in> set new. \<not> is_requestdl u)"
proof (induction kts arbitrary: s)
  case Nil
  then show ?case by simp
next
  case (Cons kt rest)
  obtain k t where kt: "kt = (k, t)" by (cases kt)
  show ?case
  proof (cases "parseTorrentName (ptt_parse e) (torrent_name t)")
    case (Inl ex)
    with Cons.prems kt show ?thesis by simp
  next
    case (Inr p)
    obtain c s2 where sr: "searchCinemeta e (title p) (type p) (year p) s = (c, s2)"
      by (cases "searchCinemeta e (title p) (type p) (year p) s")
    from searchCinemeta_requests_new [OF sr] obtain new1 where
      n1: "requests s2 = requests s @ new1" "\<forall>u \<in> set new1. \<not> is_requestdl u"
      by blast
    show ?thesis
    proof (cases "\<exists>m. c = Some m \<and> meta_id m = i")
      case True
      with Cons.prems kt Inr sr have "requests s1 = requests s2" by auto
      with n1 show ?thesis by auto
    next
      case False
      with Cons.prems kt Inr sr have "resolve_scan e i rest s2 = (r, s1)"
        by (auto split: option.splits if_splits)
      from Cons.IH [OF this] obtain new2 where
        "requests s1 = requests s2 @ new2" "\<forall>u \<in> set new2. \<not> is_requestdl u"
        by blast
      with n1 have "requests s1 = requests s @ (new1 @ new2)"
        "\<forall>u \<in> set (new1 @ new2). \<not> is_requestdl u"
        by auto
      then show ?thesis by blast
    qed
  qed
qed

lemma find_torrent_requests:
  "find_torrent e i s = (r, s1) \<Longrightarrow>
   \<exists>new. requests s1 = requests s @ new \<and> (\<forall>u \<in> set new. \<not> is_requestdl u)"
proof -
  assume run: "find_torrent e i s = (r, s1)"
  obtain g s0 where g: "getTorboxTorrents e s = (g, s0)"
    by (cases "getTorboxTorrents e s")
  from getTorboxTorrents_requests [OF g] obtain new0 where
    n0: "requests s0 = requests s @ new0" "\<forall>u \<in> set new0. \<not> is_requestdl u"
    by blast
  have "s1 = s \<or> s1 = s0 \<or> (\<exists>r'. resolve_scan e i (torrentsCache s0) s0 = (r', s1))"
    using run g
    by (auto simp add: find_torrent_def Let_def
             split: if_splits option.splits sum.splits prod.splits)
  then show ?thesis
  proof (elim disjE exE)
    assume "s1 = s"
    then show ?thesis by simp
  next
    assume "s1 = s0"
    with n0 show ?thesis by blast
  next
    fix r'
    assume "resolve_scan e i (torrentsCache s0) s0 = (r', s1)"
    from resolve_scan_requests [OF this] obtain new2 where
      "requests s1 = requests s0 @ new2" "\<forall>u \<in> set new2. \<not> is_requestdl u"
      by blast
    with n0 have "requests s1 = requests s @ (new0 @ new2)"
      "\<forall>u \<in> set (new0 @ new2). \<not> is_requestdl u"
      by auto
    then show ?thesis by blast
  qed
qed

lemma resolve_scan_append:
  "resolve_scan e i (pre @ rest) s =
     (case resolve_scan e i pre s of
        (Inr None, s2) \<Rightarrow> resolve_scan e i rest s2
      | other \<Rightarrow> other)"
proof (induction pre arbitrary: s)
  case Nil
  show ?case by simp
next
  case (Cons kt pre)
  obtain k t where kt: "kt = (k, t)" by (cases kt)
  show ?case
    unfolding kt
    by (simp add: Cons.IH split: sum.splits prod.splits option.splits)
qed

lemma find_first:
  "P x \<Longrightarrow> \<forall>y \<in> set pre. \<not> P y \<Longrightarrow> find P (pre @ x # post) = Some x"
  by (induction pre) auto

lemma find_none: "\<forall>y \<in> set xs. \<not> P y \<Longrightarrow> find P xs = None"
  by (induction xs) auto

text \<open>The link requests of one call of the stream handler all name one inventory entry.\<close>

lemma streamHandler_one_entry:
  "\<exists>tid. \<forall>u \<in> set (drop (length (requests s)) (requests (snd (streamHandler e ty i s)))).
      is_requestdl u \<longrightarrow>
      (\<exists>key f. TORBOX_API_KEY e = Some key \<and> u = requestdl_url key tid f)"
proof -
  obtain r s1 where ft: "find_torrent e i s = (r, s1)"
    by (cases "find_torrent e i s")
  from find_torrent_requests [OF ft] obtain new1 where
    n1: "requests s1 = requests s @ new1" "\<forall>u \<in> set new1. \<not> is_requestdl u"
    by blast
  show ?thesis
  proof (cases "ty \<in> set [''movie'', ''series'', ''other''] \<and> (\<exists>t. r = Inr (Some t))")
    case False
    then have "snd (streamHandler e ty i s) = s \<or> snd (streamHandler e ty i s) = s1"
      using ft by (auto simp add: streamHandler_def split: sum.splits option.splits)
    with n1 show ?thesis by auto
  next
    case True
    then obtain t where t: "r = Inr (Some t)" by blast
    obtain out s2 where gen: "generateStreamsForTorrent e t s1 = (out, s2)"
      by (cases "generateStreamsForTorrent e t s1")
    from generateStreamsForTorrent_requests [OF gen] obtain new2 where
      n2: "requests s2 = requests s1 @ new2"
        "\<forall>u \<in> set new2. \<exists>key f. TORBOX_API_KEY e = Some key \<and> u = requestdl_url key (torrent_id t) f"
      by blast
    from True t ft gen have "snd (streamHandler e ty i s) = s2"
      by (simp add: streamHandler_def)
    with n1 n2 have "drop (length (requests s)) (requests (snd (streamHandler e ty i s))) = new1 @ new2"
      by simp
    with n1 n2 have "\<forall>u \<in> set (drop (length (requests s)) (requests (snd (streamHandler e ty i s)))).
      is_requestdl u \<longrightarrow>
      (\<exists>key f. TORBOX_API_KEY e = Some key \<and> u = requestdl_url key (torrent_id t) f)"
      by auto
    then show ?thesis by (rule exI)
  qed
qed

text \<open>
  Claim C9. For an id that starts with \<open>tt\<close>, every link request issued in one call of
  the stream handler names one and the same inventory entry. After the refresh the first
  entry of the cache, in its order, that carries the id as its mark is the one whose links
  are returned, whatever follows it. When no entry carries the mark, the entries are
  parsed and searched again in that order, and the first one whose record has the id is
  marked and is the one whose links are returned, whatever follows it.
\<close>

theorem C9_links_from_first_match:
  assumes "startsWith i ''tt''" and "ty \<in> set [''movie'', ''series'', ''other'']"
  shows
   "(\<exists>tid. \<forall>u \<in> set (drop (length (requests s)) (requests (snd (streamHandler e ty i s)))).
       is_requestdl u \<longrightarrow>
       (\<exists>key f. TORBOX_API_KEY e = Some key \<and> u = requestdl_url key tid f)) \<and>
    (\<forall>ts s1 pre k t post.
       getTorboxTorrents e s = (Inr ts, s1) \<and> torrentsCache s1 = pre @ (k, t) # post \<and>
       (\<forall>kt \<in> set pre. imdbId (snd kt) \<noteq> Some i) \<and> imdbId t = Some i \<longrightarrow>
       streamHandler e ty i s = generateStreamsForTorrent e t s1) \<and>
    (\<forall>ts s1 pre k t post s2 p r s3.
       getTorboxTorrents e s = (Inr ts, s1) \<and> torrentsCache s1 = pre @ (k, t) # post \<and>
       (\<forall>kt \<in> set (torrentsCache s1). imdbId (snd kt) \<noteq> Some i) \<and>
       resolve_scan e i pre s1 = (Inr None, s2) \<and>
       parseTorrentName (ptt_parse e) (torrent_name t) = Inr p \<and>
       searchCinemeta e (title p) (type p) (year p) s2 = (Some r, s3) \<and> meta_id r = i \<longrightarrow>
       streamHandler e ty i s =
         generateStreamsForTorrent e (t\<lparr>imdbId := Some i\<rparr>)
           (s3\<lparr>torrentsCache := AList.update k (t\<lparr>imdbId := Some i\<rparr>) (torrentsCache s3)\<rparr>))"
proof (intro conjI allI impI)
  show "\<exists>tid. \<forall>u \<in> set (drop (length (requests s)) (requests (snd (streamHandler e ty i s)))).
       is_requestdl u \<longrightarrow>
       (\<exists>key f. TORBOX_API_KEY e = Some key \<and> u = requestdl_url key tid f)"
    by (rule streamHandler_one_entry)
next
  fix ts s1 pre k t post
  assume h: "getTorboxTorrents e s = (Inr ts, s1) \<and> torrentsCache s1 = pre @ (k, t) # post \<and>
       (\<forall>kt \<in> set pre. imdbId (snd kt) \<noteq> Some i) \<and> imdbId t = Some i"
  then have "find (\<lambda>(k, t). imdbId t = Some i) (pre @ (k, t) # post) = Some (k, t)"
    by (intro find_first) auto
  with h assms startsWith_tt_not_tb [OF assms(1)]
  have "find_torrent e i s = (Inr (Some t), s1)"
    by (simp add: find_torrent_def)
  with assms show "streamHandler e ty i s = generateStreamsForTorrent e t s1"
    by (simp add: streamHandler_def)
next
  fix ts s1 pre k t post s2 p r s3
  assume h: "getTorboxTorrents e s = (Inr ts, s1) \<and> torrentsCache s1 = pre @ (k, t) # post \<and>
       (\<forall>kt \<in> set (torrentsCache s1). imdbId (snd kt) \<noteq> Some i) \<and>
       resolve_scan e i pre s1 = (Inr None, s2) \<and>
       parseTorrentName (ptt_parse e) (torrent_name t) = Inr p \<and>
       searchCinemeta e (title p) (type p) (year p) s2 = (Some r, s3) \<and> meta_id r = i"
  then have all: "\<forall>kt \<in> set (torrentsCache s1). imdbId (snd kt) \<noteq> Some i" by blast
  have none: "find (\<lambda>(k, t). imdbId t = Some i) (torrentsCache s1) = None"
  proof (rule find_none)
    show "\<forall>y \<in> set (torrentsCache s1). \<not> (case y of (k, t) \<Rightarrow> imdbId t = Some i)"
      using all by (auto simp add: case_prod_beta)
  qed
  from h have "resolve_scan e i (pre @ (k, t) # post) s1 =
      (Inr (Some (t\<lparr>imdbId := Some i\<rparr>)),
       s3\<lparr>torrentsCache := AList.update k (t\<lparr>imdbId := Some i\<rparr>) (torrentsCache s3)\<rparr>)"
    by (simp add: resolve_scan_append)
  with h none assms startsWith_tt_not_tb [OF assms(1)]
  have "find_torrent e i s =
      (Inr (Some (t\<lparr>imdbId := Some i\<rparr>)),
       s3\<lparr>torrentsCache := AList.update k (t\<lparr>imdbId := Some i\<rparr>) (torrentsCache s3)\<rparr>)"
    by (simp add: find_torrent_def)
  with assms show "streamHandler e ty i s =
         generateStreamsForTorrent e (t\<lparr>imdbId := Some i\<rparr>)
           (s3\<lparr>torrentsCache := AList.update k (t\<lparr>imdbId := Some i\<rparr>) (torrentsCache s3)\<rparr>)"
    by (simp add: streamHandler_def)
qed

text \<open>
  The theorem at a cache with two entries that carry the same mark, and at an inventory
  with two quality variants of one film and no mark: in both, the links come from the
  first entry alone.
\<close>

theorem C9_links_from_first_match_witness:
  "startsWith ''tt1234567'' ''tt'' \<and>
   torrentsCache (snd (getTorboxTorrents (sample_env []) marked_state))
     = [(''7'', (entry 7 ''Movie.Name.2021.1080p.BluRay.mkv'' JNull JNull)\<lparr>imdbId := Some ''tt1234567''\<rparr>),
        (''8'', (entry 8 ''Movie.Name.2021.2160p.WEB.mkv'' JNull JNull)\<lparr>imdbId := Some ''tt1234567''\<rparr>)] \<and>
   streamHandler (sample_env []) ''movie'' ''tt1234567'' marked_state
     = generateStreamsForTorrent (sample_env [])
         ((entry 7 ''Movie.Name.2021.1080p.BluRay.mkv'' JNull JNull)\<lparr>imdbId := Some ''tt1234567''\<rparr>)
         (snd (getTorboxTorrents (sample_env []) marked_state)) \<and>
   requests (snd (streamHandler (sample_env []) ''movie'' ''tt1234567'' marked_state))
     = [mylist_url, requestdl_url ''key'' 7 None] \<and>
   torrentsCache (snd (getTorboxTorrents (sample_env [variant_1080p, variant_2160p]) empty_state))
     = [(''1'', variant_1080p), (''2'', variant_2160p)] \<and>
   streamHandler (sample_env [variant_1080p, variant_2160p]) ''movie'' ''tt1234567'' empty_state
     = generateStreamsForTorrent (sample_env [variant_1080p, variant_2160p])
         (variant_1080p\<lparr>imdbId := Some ''tt1234567''\<rparr>)
         ((snd (searchCinemeta (sample_env [variant_1080p, variant_2160p]) ''Movie Name'' ''movie'' (Some 2021)
                 (snd (getTorboxTorrents (sample_env [variant_1080p, variant_2160p]) empty_state))))
           \<lparr>torrentsCache := [(''1'', variant_1080p\<lparr>imdbId := Some ''tt1234567''\<rparr>),
                              (''2'', variant_2160p)]\<rparr>) \<and>
   requests (snd (streamHandler (sample_env [variant_1080p, variant_2160p]) ''movie'' ''tt1234567'' empty_state))
     = [mylist_url, search_url ''movie'' ''Movie Name'', requestdl_url ''key'' 1 None]"
proof -
  have tt: "startsWith ''tt1234567'' ''tt''" by (simp add: startsWith_def)
  have ty: "''movie'' \<in> set [''movie'', ''series'', ''other'']" by simp
  text \<open>An entry that carries the mark.\<close>
  define E0 where "E0 = sample_env []"
  define t7 where "t7 = (entry 7 ''Movie.Name.2021.1080p.BluRay.mkv'' JNull JNull)\<lparr>imdbId := Some ''tt1234567''\<rparr>"
  define t8 where "t8 = (entry 8 ''Movie.Name.2021.2160p.WEB.mkv'' JNull JNull)\<lparr>imdbId := Some ''tt1234567''\<rparr>"
  define M1 where "M1 = snd (getTorboxTorrents E0 marked_state)"
  have "fst (getTorboxTorrents E0 marked_state) = Inr []"
    unfolding E0_def by code_simp
  then have g0: "getTorboxTorrents E0 marked_state = (Inr [], M1)"
    unfolding M1_def by (rule pair_of_fst)
  have c0': "torrentsCache M1 = [(''7'', t7), (''8'', t8)]"
    unfolding M1_def E0_def t7_def t8_def by code_simp
  then have c0: "torrentsCache M1 = [] @ (''7'', t7) # [(''8'', t8)]" by simp
  have pre0: "\<forall>kt \<in> set ([] :: (string \<times> torrent) list). imdbId (snd kt) \<noteq> Some ''tt1234567''" by simp
  have m0: "imdbId t7 = Some ''tt1234567''" by (simp add: t7_def)
  note inst1 = C9_links_from_first_match [OF tt ty, of marked_state E0, THEN conjunct2, THEN conjunct1,
                 rule_format]
  have first: "streamHandler E0 ''movie'' ''tt1234567'' marked_state = generateStreamsForTorrent E0 t7 M1"
    apply (rule inst1)
    apply (rule conjI, rule g0)
    apply (rule conjI, rule c0)
    apply (rule conjI, rule pre0)
    apply (rule m0)
    done
  have req0: "requests (snd (streamHandler E0 ''movie'' ''tt1234567'' marked_state))
     = [mylist_url, requestdl_url ''key'' 7 None]"
    unfolding E0_def by code_simp
  text \<open>No mark: the entries are parsed and searched again.\<close>
  define E where "E = sample_env [variant_1080p, variant_2160p]"
  define S1 where "S1 = snd (getTorboxTorrents E empty_state)"
  define p where "p = \<lparr>title = ''Movie Name'', year = Some 2021, season = None, episode = None,
                        quality = Some ''1080p'', type = ''movie''\<rparr>"
  define S3 where "S3 = snd (searchCinemeta E (title p) (type p) (year p) S1)"
  have "fst (getTorboxTorrents E empty_state) = Inr [variant_1080p, variant_2160p]"
    unfolding E_def by code_simp
  then have g: "getTorboxTorrents E empty_state = (Inr [variant_1080p, variant_2160p], S1)"
    unfolding S1_def by (rule pair_of_fst)
  have c': "torrentsCache S1 = [(''1'', variant_1080p), (''2'', variant_2160p)]"
    unfolding S1_def E_def by code_simp
  then have c: "torrentsCache S1 = [] @ (''1'', variant_1080p) # [(''2'', variant_2160p)]" by simp
  have um: "\<forall>kt \<in> set (torrentsCache S1). imdbId (snd kt) \<noteq> Some ''tt1234567''"
    by (simp add: c' variant_1080p_def variant_2160p_def entry_def)
  have sc: "resolve_scan E ''tt1234567'' [] S1 = (Inr None, S1)" by simp
  have pr: "parseTorrentName (ptt_parse E) (torrent_name variant_1080p) = Inr p"
    unfolding E_def p_def by code_simp
  have "fst (searchCinemeta E (title p) (type p) (year p) S1) = Some movie_meta"
    unfolding E_def p_def S1_def by code_simp
  then have sr: "searchCinemeta E (title p) (type p) (year p) S1 = (Some movie_meta, S3)"
    unfolding S3_def by (rule pair_of_fst)
  have mi: "meta_id movie_meta = ''tt1234567''" by (simp add: movie_meta_def)
  note inst2 = C9_links_from_first_match [OF tt ty, of empty_state E, THEN conjunct2, THEN conjunct2,
                 rule_format]
  have second: "streamHandler E ''movie'' ''tt1234567'' empty_state =
         generateStreamsForTorrent E (variant_1080p\<lparr>imdbId := Some ''tt1234567''\<rparr>)
           (S3\<lparr>torrentsCache := AList.update ''1'' (variant_1080p\<lparr>imdbId := Some ''tt1234567''\<rparr>)
                                    (torrentsCache S3)\<rparr>)"
    apply (rule inst2)
    apply (rule conjI, rule g)
    apply (rule conjI, rule c)
    apply (rule conjI, rule um)
    apply (rule conjI, rule sc)
    apply (rule conjI, rule pr)
    apply (rule conjI, rule sr)
    apply (rule mi)
    done
  have "torrentsCache S3 = torrentsCache S1"
    unfolding S3_def by (simp add: searchCinemeta_torrentsCache)
  with c' have upd: "AList.update ''1'' (variant_1080p\<lparr>imdbId := Some ''tt1234567''\<rparr>) (torrentsCache S3)
      = [(''1'', variant_1080p\<lparr>imdbId := Some ''tt1234567''\<rparr>), (''2'', variant_2160p)]"
    by simp
  have req: "requests (snd (streamHandler E ''movie'' ''tt1234567'' empty_state))
     = [mylist_url, search_url ''movie'' ''Movie Name'', requestdl_url ''key'' 1 None]"
    unfolding E_def by code_simp
  have tp: "title p = ''Movie Name''" "type p = ''movie''" "year p = Some 2021"
    by (simp_all add: p_def)
  note f1 = c0' [unfolded M1_def E0_def t7_def t8_def]
  note f2 = first [unfolded M1_def E0_def t7_def]
  note f3 = req0 [unfolded E0_def]
  note f4 = c' [unfolded S1_def E_def]
  note f5 = second [unfolded upd, unfolded S3_def tp, unfolded S1_def E_def]
  note f6 = req [unfolded E_def]
  show ?thesis
    by (intro conjI; fact tt f1 f2 f3 f4 f5 f6)
qed

end
